theory Spec2Isabelle
  imports Complex_Main "HOL-Library.AList" "HOL-Library.Multiset"
begin

section \<open>JavaScript values\<close>

text \<open>
  The application keeps its collections as plain JSON data: transactions are an array of
  flat records, budgets, settings and categories are plain objects. A value is a JSON-like
  tree. Numbers are the finite ones and the two infinities (\<open>NaN\<close> has no constructor:
  JSON has none, and the one place that can produce it, \<open>parseFloat\<close>, has a result
  type of its own). An object is its list of own properties in insertion order. Values
  are compared structurally, which is what \<open>===\<close> and \<open>Set.has\<close> do on the strings
  that serve as record keys here.
\<close>

datatype jsval =
    JUndefined
  | JNull
  | JBool bool
  | JNum real
  | JPosInfinity
  | JNegInfinity
  | JStr string
  | JArr "jsval list"
  | JObj "(string \<times> jsval) list"

type_synonym obj = "(string \<times> jsval) list"

datatype error = TypeError | SyntaxError | StorageError | NetworkError

text \<open>
  \<open>item[field]\<close> on a plain object: the own property, or \<open>undefined\<close>. (The names the
  application reads, \<open>id\<close>, \<open>category\<close>, \<open>name\<close>, \<open>timestamp\<close>, \<open>date\<close> and the like, are
  not inherited from \<open>Object.prototype\<close>.)
\<close>

definition getProp :: "obj \<Rightarrow> string \<Rightarrow> jsval" where
  "getProp item field = (case map_of item field of None \<Rightarrow> JUndefined | Some v \<Rightarrow> v)"

text \<open>Truthiness, as \<open>||\<close>, \<open>!\<close> and \<open>if\<close> test it.\<close>

fun truthy :: "jsval \<Rightarrow> bool" where
  "truthy JUndefined = False"
| "truthy JNull = False"
| "truthy (JBool b) = b"
| "truthy (JNum n) = (n \<noteq> 0)"
| "truthy JPosInfinity = True"
| "truthy JNegInfinity = True"
| "truthy (JStr s) = (s \<noteq> [])"
| "truthy (JArr xs) = True"
| "truthy (JObj ps) = True"

text \<open>\<open>a || b\<close>\<close>

definition orElse :: "jsval \<Rightarrow> jsval \<Rightarrow> jsval" where
  "orElse a b = (if truthy a then a else b)"

section \<open>The reconciler: \<open>mergeArrayData\<close>\<close>

text \<open>
  \<open>Array.prototype.findIndex\<close>: the index of the first element that satisfies the
  predicate; \<open>None\<close> stands for the result \<open>-1\<close>.
\<close>

fun findIndex :: "('a \<Rightarrow> bool) \<Rightarrow> 'a list \<Rightarrow> nat option" where
  "findIndex P [] = None"
| "findIndex P (x # xs) = (if P x then Some 0 else map_option Suc (findIndex P xs))"

text \<open>
  The argument of the \<open>Date\<close> constructor in the conflict branch:
  \<open>item.timestamp || item.date || 0\<close>.
\<close>

definition timeSource :: "obj \<Rightarrow> jsval" where
  "timeSource item = orElse (orElse (getProp item ''timestamp'') (getProp item ''date'')) (JNum 0)"

text \<open>
  \<open>new Date(v)\<close> is the platform's; it enters the model as the parameter \<open>newDate\<close>, the
  time value of the constructed date in milliseconds, \<open>None\<close> for an invalid date (whose
  time value is \<open>NaN\<close>). \<open>cloudTime > localTime\<close> compares the two time values as numbers,
  and every comparison with \<open>NaN\<close> is false.
\<close>

definition dateGt :: "int option \<Rightarrow> int option \<Rightarrow> bool" where
  "dateGt a b = (case a of None \<Rightarrow> False | Some x \<Rightarrow> (case b of None \<Rightarrow> False | Some y \<Rightarrow> x > y))"

text \<open>
  The body of \<open>cloudArray.forEach\<close>, on the accumulated array \<open>merged\<close>. Reading
  \<open>localItem.timestamp\<close> when \<open>findIndex\<close> found nothing (\<open>merged[-1]\<close> is
  \<open>undefined\<close>) throws a \<open>TypeError\<close>.
\<close>

definition mergeStep ::
  "(jsval \<Rightarrow> int option) \<Rightarrow> string \<Rightarrow> jsval list \<Rightarrow> obj list \<Rightarrow> obj \<Rightarrow> error + obj list" where
  "mergeStep newDate keyField localKeys merged cloudItem =
     (if getProp cloudItem keyField \<notin> set localKeys then Inr (merged @ [cloudItem])
      else (case findIndex (\<lambda>item. getProp item keyField = getProp cloudItem keyField) merged of
              None \<Rightarrow> Inl TypeError
            | Some localIndex \<Rightarrow>
                (let localItem = merged ! localIndex;
                     cloudTime = newDate (timeSource cloudItem);
                     localTime = newDate (timeSource localItem)
                 in if dateGt cloudTime localTime
                    then Inr (merged[localIndex := cloudItem])
                    else Inr merged)))"

text \<open>\<open>forEach\<close> with a callback that updates the accumulator and may throw.\<close>

fun forEach :: "('s \<Rightarrow> 'a \<Rightarrow> error + 's) \<Rightarrow> 's \<Rightarrow> 'a list \<Rightarrow> error + 's" where
  "forEach f s [] = Inr s"
| "forEach f s (x # xs) = (case f s x of Inl e \<Rightarrow> Inl e | Inr s' \<Rightarrow> forEach f s' xs)"

definition mergeArrayData ::
  "(jsval \<Rightarrow> int option) \<Rightarrow> obj list \<Rightarrow> obj list \<Rightarrow> string \<Rightarrow> error + obj list" where
  "mergeArrayData newDate localArray cloudArray keyField =
     (let merged = localArray;
          localKeys = map (\<lambda>item. getProp item keyField) localArray
      in forEach (mergeStep newDate keyField localKeys) merged cloudArray)"

text \<open>
  The time values of the date strings used in the examples below, as
  \<open>new Date(s).getTime()\<close> gives them (midnight UTC of the day), and of a number, which
  is its own time value.
\<close>

definition exampleDate :: "jsval \<Rightarrow> int option" where
  "exampleDate v =
     (if v = JStr ''2024-01-01'' then Some 1704067200000
      else if v = JStr ''2024-01-02'' then Some 1704153600000
      else if v = JStr ''2024-01-05'' then Some 1704412800000
      else if v = JNum 0 then Some 0
      else None)"

section \<open>Dynamic values in the application state\<close>

text \<open>
  The controller holds its four collections in fields of \<open>this\<close>; each holds whatever
  was last assigned to it (a parsed JSON value, a default, a merge result).
\<close>

record app =
  transactions :: jsval
  budgets :: jsval
  settings :: jsval
  categories :: jsval

text \<open>
  \<open>v.name\<close> on a value that is neither \<open>null\<close> nor \<open>undefined\<close>: the own property of
  a plain object; the names read in this way (\<open>transactions\<close>, \<open>budgets\<close>, \<open>settings\<close>,
  \<open>categories\<close>) are not properties of arrays, strings, numbers or booleans.
\<close>

definition field :: "jsval \<Rightarrow> string \<Rightarrow> jsval" where
  "field v name = (case v of JObj ps \<Rightarrow> getProp ps name | _ \<Rightarrow> JUndefined)"



fun nullish :: "jsval \<Rightarrow> bool" where
  "nullish JUndefined = True"
| "nullish JNull = True"
| "nullish v = False"

definition defaultSettings :: jsval where
  "defaultSettings = JObj [(''lowBalanceThreshold'', JNum 100),
                           (''overspendingAlert'', JNum 80),
                           (''enableNotifications'', JBool False)]"

definition defaultCategories :: jsval where
  "defaultCategories =
     JObj [(''income'', JArr [JStr ''Salary'', JStr ''Freelance'', JStr ''Investment'',
                              JStr ''Gift'', JStr ''Other'']),
           (''expense'', JArr [JStr ''Food'', JStr ''Transportation'', JStr ''Entertainment'',
                               JStr ''Bills'', JStr ''Shopping'', JStr ''Healthcare'',
                               JStr ''Other''])]"

definition initializeDefaultData :: "app \<Rightarrow> app" where
  "initializeDefaultData s =
     s\<lparr>transactions := JArr [], budgets := JObj [],
       settings := defaultSettings, categories := defaultCategories\<rparr>"

section \<open>The redraw: \<open>updateDashboard\<close>, \<open>updateDisplay\<close>, \<open>checkAlerts\<close>\<close>

text \<open>
  The comparator of \<open>updateRecentTransactions\<close>, \<open>new Date(b.date) - new Date(a.date)\<close>,
  on two elements that are neither \<open>null\<close> nor \<open>undefined\<close>; \<open>None\<close> is \<open>NaN\<close>.
\<close>

definition dateDifference :: "(jsval \<Rightarrow> int option) \<Rightarrow> jsval \<Rightarrow> jsval \<Rightarrow> int option" where
  "dateDifference newDate a b =
     (case newDate (field b ''date'') of
        None \<Rightarrow> None
      | Some tb \<Rightarrow> (case newDate (field a ''date'') of None \<Rightarrow> None | Some ta \<Rightarrow> Some (tb - ta)))"

text \<open>
  \<open>this.transactions.sort(comparator)\<close> sorts the array in place, newest first.
  \<open>Array.prototype.sort\<close> is stable, so with valid dates throughout the result is the one
  an insertion sort gives: an element moves behind exactly those that the comparator
  puts before it. With an invalid date among them the comparator yields \<open>NaN\<close> and the
  order is left to the implementation; the model keeps the order of such a pair.
\<close>

fun insertByDate :: "(jsval \<Rightarrow> int option) \<Rightarrow> jsval \<Rightarrow> jsval list \<Rightarrow> jsval list" where
  "insertByDate newDate a [] = [a]"
| "insertByDate newDate a (b # bs) =
     (case dateDifference newDate a b of
        None \<Rightarrow> a # b # bs
      | Some d \<Rightarrow> if d > 0 then b # insertByDate newDate a bs else a # b # bs)"

definition sortNewestFirst :: "(jsval \<Rightarrow> int option) \<Rightarrow> jsval list \<Rightarrow> jsval list" where
  "sortNewestFirst newDate ts = foldr (insertByDate newDate) ts []"

text \<open>
  \<open>updateDashboard\<close>: the state it leaves and the exception it throws, if any.
  \<open>calculateBalance\<close> comes first and reads \<open>t.type\<close> of every element of
  \<open>this.transactions\<close>, which throws when the field holds no array or the array holds
  \<open>null\<close>; then \<open>updateRecentTransactions\<close> sorts the array in place. That sort is the
  only assignment of the whole redraw. The page is taken to have the elements and the
  chart library the drawing code asks for.
\<close>

definition updateDashboard :: "(jsval \<Rightarrow> int option) \<Rightarrow> app \<Rightarrow> app \<times> error option" where
  "updateDashboard newDate s =
     (case transactions s of
        JArr ts \<Rightarrow>
          if list_ex nullish ts then (s, Some TypeError)
          else (s\<lparr>transactions := JArr (sortNewestFirst newDate ts)\<rparr>, None)
      | _ \<Rightarrow> (s, Some TypeError))"

text \<open>The values \<open>Object.entries(v)\<close> lists, for a value that is not \<open>null\<close>.\<close>

fun entryValues :: "jsval \<Rightarrow> jsval list" where
  "entryValues (JObj ps) = map snd ps"
| "entryValues (JArr xs) = xs"
| "entryValues (JStr cs) = map (\<lambda>c. JStr [c]) cs"
| "entryValues v = []"

text \<open>
  \<open>updateBudgetsList\<close> draws only; \<open>Object.keys(this.budgets)\<close> throws on \<open>null\<close>, and
  so does \<open>budget.period\<close> on an entry that is \<open>null\<close>.
\<close>

definition updateBudgetsList :: "app \<Rightarrow> error option" where
  "updateBudgetsList s =
     (if nullish (budgets s) then Some TypeError
      else if list_ex nullish (entryValues (budgets s)) then Some TypeError
      else None)"

text \<open>
  \<open>updateDisplay\<close>: \<open>updateDashboard\<close>, then \<open>displayAllTransactions\<close> (which draws the
  array just sorted) and \<open>updateBudgetsList\<close>.
\<close>

definition updateDisplay :: "(jsval \<Rightarrow> int option) \<Rightarrow> app \<Rightarrow> app \<times> error option" where
  "updateDisplay newDate s =
     (case updateDashboard newDate s of
        (s1, Some e) \<Rightarrow> (s1, Some e)
      | (s1, None) \<Rightarrow> (s1, updateBudgetsList s1))"

text \<open>
  \<open>checkAlerts\<close>, called after a redraw that went through: it assigns nothing, reads
  \<open>this.settings.lowBalanceThreshold\<close>, and walks \<open>Object.entries(this.budgets)\<close>
  reading \<open>budget.period\<close>.
\<close>

definition checkAlerts :: "app \<Rightarrow> error option" where
  "checkAlerts s =
     (if nullish (settings s) then Some TypeError
      else if nullish (budgets s) then Some TypeError
      else if list_ex nullish (entryValues (budgets s)) then Some TypeError
      else None)"

section \<open>Settings merge: \<open>mergeSettings\<close>\<close>

text \<open>
  Assigning a property keeps the position of an existing name and appends a new one.
  The spread \<open>{...a, ...b}\<close> assigns the properties of \<open>a\<close>, then those of \<open>b\<close>, to a
  fresh object.
\<close>

definition setProp :: "obj \<Rightarrow> string \<Rightarrow> jsval \<Rightarrow> obj" where
  "setProp target name v = AList.update name v target"

definition assign :: "obj \<Rightarrow> obj \<Rightarrow> obj" where
  "assign target source = foldl (\<lambda>t p. setProp t (fst p) (snd p)) target source"

definition spread :: "obj \<Rightarrow> obj \<Rightarrow> obj" where
  "spread a b = assign (assign [] a) b"

text \<open>
  \<open>mergeSettings\<close>, from the object \<open>getAppSettings()\<close> returned and the cloud settings
  to the object handed to \<open>saveAppSettings\<close>.
\<close>

definition mergeSettings :: "obj \<Rightarrow> obj \<Rightarrow> obj" where
  "mergeSettings localSettings cloudSettings =
     (let mergedSettings = spread localSettings cloudSettings;
          mergedSettings = setProp mergedSettings ''deviceId'' (getProp localSettings ''deviceId'');
          mergedSettings = setProp mergedSettings ''lastLocalSync'' (getProp localSettings ''lastLocalSync'')
      in mergedSettings)"

section \<open>Merging a downloaded snapshot: \<open>mergeCloudData\<close>\<close>

text \<open>
  \<open>mergeArrayData\<close> as \<open>mergeCloudData\<close> calls it, on fields of \<open>this\<close> and of the
  downloaded data, whose values need not be arrays of records. The loop is the one
  above, on elements of any kind: reading a property of an element that is \<open>null\<close> or
  \<open>undefined\<close> throws, and any other element that is not an object has none of the
  properties read here (\<open>id\<close>, \<open>category\<close>, \<open>name\<close>, the key fields \<open>mergeCloudData\<close>
  passes, and \<open>timestamp\<close>, \<open>date\<close>).
\<close>

definition timeSourceJS :: "jsval \<Rightarrow> jsval" where
  "timeSourceJS item = orElse (orElse (field item ''timestamp'') (field item ''date'')) (JNum 0)"

definition mergeStepJS ::
  "(jsval \<Rightarrow> int option) \<Rightarrow> string \<Rightarrow> jsval list \<Rightarrow> jsval list \<Rightarrow> jsval \<Rightarrow> error + jsval list" where
  "mergeStepJS newDate keyField localKeys merged cloudItem =
     (if nullish cloudItem then Inl TypeError
      else if field cloudItem keyField \<notin> set localKeys then Inr (merged @ [cloudItem])
      else (case findIndex (\<lambda>item. field item keyField = field cloudItem keyField) merged of
              None \<Rightarrow> Inl TypeError
            | Some localIndex \<Rightarrow>
                (let localItem = merged ! localIndex;
                     cloudTime = newDate (timeSourceJS cloudItem);
                     localTime = newDate (timeSourceJS localItem)
                 in if dateGt cloudTime localTime
                    then Inr (merged[localIndex := cloudItem])
                    else Inr merged)))"

text \<open>
  \<open>[...localArray]\<close> throws on a value that is not iterable and \<open>localArray.map\<close> on one
  that is not an array; the callback of \<open>map\<close> reads the key of every local element;
  \<open>cloudArray.forEach\<close> throws on a value that is not an array. Every element of
  \<open>merged\<close> has had its key read before, so \<open>findIndex\<close> meets no \<open>null\<close>.
\<close>

definition mergeArrayDataJS ::
  "(jsval \<Rightarrow> int option) \<Rightarrow> jsval \<Rightarrow> jsval \<Rightarrow> string \<Rightarrow> error + jsval" where
  "mergeArrayDataJS newDate localArray cloudArray keyField =
     (case localArray of
        JArr xs \<Rightarrow>
          if list_ex nullish xs then Inl TypeError
          else (case cloudArray of
                  JArr ys \<Rightarrow>
                    (let merged = xs;
                         localKeys = map (\<lambda>item. field item keyField) xs
                     in case forEach (mergeStepJS newDate keyField localKeys) merged ys of
                          Inl e \<Rightarrow> Inl e
                        | Inr merged \<Rightarrow> Inr (JArr merged))
                | _ \<Rightarrow> Inl TypeError)
      | _ \<Rightarrow> Inl TypeError)"

text \<open>
  One of the three blocks \<open>if (cloudData.x) { this.x = this.mergeArrayData(this.x || [],
  cloudData.x, key) }\<close>: the new value of the field, or the exception.
\<close>

definition mergeCollection ::
  "(jsval \<Rightarrow> int option) \<Rightarrow> jsval \<Rightarrow> jsval \<Rightarrow> string \<Rightarrow> error + jsval" where
  "mergeCollection newDate localValue cloudValue keyField =
     (if truthy cloudValue
      then mergeArrayDataJS newDate (orElse localValue (JArr [])) cloudValue keyField
      else Inr localValue)"

text \<open>
  \<open>mergeCloudData\<close> returns the state it leaves and the exception it rethrows, if any:
  a field assigned before the exception keeps its new value. \<open>mergeSettings\<close> works on
  the settings kept in \<open>localStorage\<close> and assigns none of the four fields;
  \<open>localSettings\<close> is what its call of \<open>getAppSettings()\<close> returns, and reading
  \<open>localSettings.deviceId\<close> throws when that is \<open>null\<close>. \<open>saveData\<close> catches its own
  exceptions and comes before the redraw, so it stores the transactions as merged; the
  redraw \<open>updateDisplay\<close> then sorts them in place.
\<close>

definition mergeCloudData ::
  "(jsval \<Rightarrow> int option) \<Rightarrow> jsval \<Rightarrow> app \<Rightarrow> jsval \<Rightarrow> app \<times> error option" where
  "mergeCloudData newDate localSettings s cloudData =
     (if \<not> truthy cloudData then (s, None)
      else
        (case mergeCollection newDate (transactions s) (field cloudData ''transactions'') ''id'' of
           Inl e \<Rightarrow> (s, Some e)
         | Inr t \<Rightarrow>
             (let s1 = s\<lparr>transactions := t\<rparr> in
              case mergeCollection newDate (budgets s1) (field cloudData ''budgets'') ''category'' of
                Inl e \<Rightarrow> (s1, Some e)
              | Inr b \<Rightarrow>
                  (let s2 = s1\<lparr>budgets := b\<rparr> in
                   case mergeCollection newDate (categories s2) (field cloudData ''categories'') ''name'' of
                     Inl e \<Rightarrow> (s2, Some e)
                   | Inr c \<Rightarrow>
                       (let s3 = s2\<lparr>categories := c\<rparr> in
                        if truthy (field cloudData ''settings'') \<and> nullish localSettings
                        then (s3, Some TypeError)
                        else updateDisplay newDate s3)))))"

section \<open>The sync cycle: \<open>downloadFromCloud\<close> and \<open>performCloudSync\<close>\<close>

record syncClient =
  isOnline :: bool
  syncInProgress :: bool

text \<open>
  \<open>downloadFromCloud\<close>, given what the four table downloads do (each returns its data
  or throws); they run in order and the first exception ends the \<open>try\<close> block. The result
  is the downloaded snapshot or \<open>null\<close>, with the client as the \<open>finally\<close> block leaves it.
\<close>

definition downloadFromCloud ::
  "syncClient \<Rightarrow> error + jsval \<Rightarrow> error + jsval \<Rightarrow> error + jsval \<Rightarrow> error + jsval
     \<Rightarrow> jsval \<times> syncClient" where
  "downloadFromCloud client downloadTransactions downloadBudgets downloadSettings downloadCategories =
     (if \<not> isOnline client \<or> syncInProgress client then (JNull, client)
      else
        (let done = client\<lparr>syncInProgress := False\<rparr> in
         case downloadTransactions of Inl e \<Rightarrow> (JNull, done) | Inr t \<Rightarrow>
         (case downloadBudgets of Inl e \<Rightarrow> (JNull, done) | Inr b \<Rightarrow>
         (case downloadSettings of Inl e \<Rightarrow> (JNull, done) | Inr st \<Rightarrow>
         (case downloadCategories of Inl e \<Rightarrow> (JNull, done) | Inr c \<Rightarrow>
            (JObj [(''transactions'', t), (''budgets'', b), (''settings'', st), (''categories'', c)],
             done))))))"

text \<open>
  The methods of the class \<open>SupabaseSync\<close>, of which \<open>this.supabaseSync\<close> is an instance
  (the only assignment to that field is \<open>new window.SupabaseSync(...)\<close>).
\<close>

definition supabaseSyncMethods :: "string list" where
  "supabaseSyncMethods =
     [''initialize'', ''loadSupabaseLibrary'', ''generateDeviceId'', ''registerDevice'',
      ''getDeviceName'', ''getDeviceType'', ''setupNetworkDetection'', ''uploadToCloud'',
      ''downloadFromCloud'', ''uploadTransactions'', ''uploadBudgets'', ''uploadSettings'',
      ''uploadCategories'', ''downloadTransactions'', ''downloadBudgets'', ''downloadSettings'',
      ''downloadCategories'', ''logSyncOperation'', ''getSyncStatus'', ''setupRealtimeSync'',
      ''cleanup'']"

text \<open>
  The call \<open>this.supabaseSync.name(...)\<close>: a \<open>TypeError\<close> when the object has no method
  of that name, and otherwise what the method does.
\<close>

definition callMethod :: "string \<Rightarrow> error + 'a \<Rightarrow> error + 'a" where
  "callMethod name body = (if name \<in> set supabaseSyncMethods then body else Inl TypeError)"

text \<open>The object uploaded in step 3; \<open>now\<close> is the current time as an ISO string.\<close>

definition dataToSync :: "app \<Rightarrow> jsval \<Rightarrow> string \<Rightarrow> jsval" where
  "dataToSync s appSettings now =
     JObj [(''transactions'', orElse (transactions s) (JArr [])),
           (''budgets'', orElse (budgets s) (JArr [])),
           (''categories'', orElse (categories s) (JArr [])),
           (''settings'', appSettings),
           (''lastModified'', JStr now)]"

text \<open>
  \<open>performCloudSync\<close>. \<open>enabled\<close> is \<open>this.supabaseSync && this.cloudSyncEnabled\<close>.
  The cycle calls the methods \<open>downloadData\<close> and \<open>uploadData\<close> of the client;
  \<open>download\<close> and \<open>upload\<close> are what methods of these names would do (throw, or return
  the snapshot or \<open>null\<close>, and throw or return a Boolean), if the client had them.
  \<open>localSettings\<close> and \<open>appSettings\<close> are what \<open>getAppSettings()\<close> returns during the
  merge and when the upload is prepared. The result is the state after the cycle and the
  Boolean returned to the caller.
\<close>

definition performCloudSync ::
  "(jsval \<Rightarrow> int option) \<Rightarrow> bool \<Rightarrow> error + jsval \<Rightarrow> (jsval \<Rightarrow> error + bool) \<Rightarrow> jsval \<Rightarrow> jsval
     \<Rightarrow> string \<Rightarrow> app \<Rightarrow> app \<times> bool" where
  "performCloudSync newDate enabled download upload localSettings appSettings now s =
     (if \<not> enabled then (s, False)
      else
        (case callMethod ''downloadData'' download of
           Inl e \<Rightarrow> (s, False)
         | Inr cloudData \<Rightarrow>
             (case (if truthy cloudData then mergeCloudData newDate localSettings s cloudData
                   else (s, None)) of
                (s', Some e) \<Rightarrow> (s', False)
              | (s', None) \<Rightarrow>
                  (case callMethod ''uploadData'' (upload (dataToSync s' appSettings now)) of
                     Inl e \<Rightarrow> (s', False)
                   | Inr success \<Rightarrow> (s', success)))))"

section \<open>Loading from storage: \<open>loadData\<close>\<close>

text \<open>
  \<open>storage.getItem(key)\<close> throws (a browser may deny access), or returns \<open>null\<close> or the
  stored text. \<open>JSON.parse\<close> is the platform's and enters as the parameter \<open>parse\<close>: it
  returns the value or throws a \<open>SyntaxError\<close>.
\<close>

type_synonym storage = "string \<Rightarrow> error + string option"

text \<open>\<open>data ? JSON.parse(data) : dflt\<close>, after \<open>data = storage.getItem(key)\<close>.\<close>

definition loadEntry ::
  "(string \<Rightarrow> error + jsval) \<Rightarrow> storage \<Rightarrow> string \<Rightarrow> jsval \<Rightarrow> error + jsval" where
  "loadEntry parse storage key dflt =
     (case storage key of
        Inl e \<Rightarrow> Inl e
      | Inr data \<Rightarrow>
          (case data of
             None \<Rightarrow> Inr dflt
           | Some text \<Rightarrow> if text = [] then Inr dflt else parse text))"

text \<open>
  The arguments of the \<open>console.log\<close> call that ends the \<open>try\<close> block:
  \<open>this.transactions.length\<close> and \<open>Object.keys(this.budgets)\<close> throw on \<open>null\<close>, and
  the last one reads the storage again.
\<close>

definition logLoaded :: "storage \<Rightarrow> app \<Rightarrow> error option" where
  "logLoaded storage s =
     (if nullish (transactions s) then Some TypeError
      else if nullish (budgets s) then Some TypeError
      else (case storage ''budgetApp_lastSave'' of Inl e \<Rightarrow> Some e | Inr data \<Rightarrow> None))"

text \<open>The \<open>try\<close> block of \<open>loadData\<close>: the state at its end and the exception, if any.\<close>

definition tryLoad :: "(string \<Rightarrow> error + jsval) \<Rightarrow> storage \<Rightarrow> app \<Rightarrow> app \<times> error option" where
  "tryLoad parse storage s =
     (case loadEntry parse storage ''budgetApp_transactions'' (JArr []) of
        Inl e \<Rightarrow> (s, Some e)
      | Inr t \<Rightarrow>
          (let s1 = s\<lparr>transactions := t\<rparr> in
           case loadEntry parse storage ''budgetApp_budgets'' (JObj []) of
             Inl e \<Rightarrow> (s1, Some e)
           | Inr b \<Rightarrow>
               (let s2 = s1\<lparr>budgets := b\<rparr> in
                case loadEntry parse storage ''budgetApp_settings'' defaultSettings of
                  Inl e \<Rightarrow> (s2, Some e)
                | Inr st \<Rightarrow>
                    (let s3 = s2\<lparr>settings := st\<rparr> in
                     case loadEntry parse storage ''budgetApp_categories'' defaultCategories of
                       Inl e \<Rightarrow> (s3, Some e)
                     | Inr c \<Rightarrow>
                         (let s4 = s3\<lparr>categories := c\<rparr> in (s4, logLoaded storage s4))))))"

text \<open>The inner \<open>try\<close> block, which falls back to \<open>sessionStorage\<close>.\<close>

definition tryFallback ::
  "(string \<Rightarrow> error + jsval) \<Rightarrow> storage \<Rightarrow> app \<Rightarrow> app \<times> error option" where
  "tryFallback parse session s =
     (case session ''budgetApp_transactions'' of
        Inl e \<Rightarrow> (s, Some e)
      | Inr transactionsData \<Rightarrow>
          (case transactionsData of
             None \<Rightarrow> (initializeDefaultData s, None)
           | Some text \<Rightarrow>
               if text = [] then (initializeDefaultData s, None)
               else (case parse text of
                       Inl e \<Rightarrow> (s, Some e)
                     | Inr t \<Rightarrow> (s\<lparr>transactions := t\<rparr>, None))))"

definition loadData ::
  "(string \<Rightarrow> error + jsval) \<Rightarrow> storage \<Rightarrow> storage \<Rightarrow> app \<Rightarrow> app \<times> error option" where
  "loadData parse localStorage sessionStorage s =
     (case tryLoad parse localStorage s of
        (s1, None) \<Rightarrow> (s1, None)
      | (s1, Some error) \<Rightarrow>
          (case tryFallback parse sessionStorage s1 of
             (s2, None) \<Rightarrow> (s2, None)
           | (s2, Some fallbackError) \<Rightarrow> (initializeDefaultData s2, None)))"

text \<open>
  The per-key \<open>loadData(key, defaultValue)\<close> of the backup script; \<open>storage\<close> is the
  storage object it selects. The outer function is the \<open>try\<close>/\<open>catch\<close>.
\<close>

definition loadDataBody ::
  "(string \<Rightarrow> error + jsval) \<Rightarrow> storage \<Rightarrow> string \<Rightarrow> jsval \<Rightarrow> error + jsval" where
  "loadDataBody parse storage key defaultValue =
     (case storage key of
        Inl e \<Rightarrow> Inl e
      | Inr data \<Rightarrow>
          (case data of
             None \<Rightarrow> Inr defaultValue
           | Some text \<Rightarrow>
               if text = [] \<or> text = ''null'' \<or> text = ''undefined'' then Inr defaultValue
               else (case parse text of
                       Inl e \<Rightarrow> Inl e
                     | Inr parsed \<Rightarrow> Inr (if parsed \<noteq> JNull then parsed else defaultValue))))"

definition loadDataKey ::
  "(string \<Rightarrow> error + jsval) \<Rightarrow> storage \<Rightarrow> string \<Rightarrow> jsval \<Rightarrow> error + jsval" where
  "loadDataKey parse storage key defaultValue =
     (case loadDataBody parse storage key defaultValue of
        Inl error \<Rightarrow> Inr defaultValue
      | Inr v \<Rightarrow> Inr v)"

text \<open>
  Stand-ins for \<open>JSON.parse\<close> and \<open>JSON.stringify\<close> in the examples below:
  \<open>exampleParse\<close> knows the JSON texts of the examples (every other text there is not
  JSON), and \<open>exampleStringify\<close> is meant for the objects the export examples serialise;
  it leaves out a property whose value is \<open>undefined\<close>, as \<open>JSON.stringify\<close> does.
\<close>

definition exampleParse :: "string \<Rightarrow> error + jsval" where
  \<open>exampleParse text =
     (if text = ''[]'' then Inr (JArr [])
      else if text = ''[{"id":"t1"}]'' then Inr (JArr [JObj [(''id'', JStr ''t1'')]])
      else if text = ''{"transactions":[{"id":"t1"}],"budgets":{},"settings":{},"categories":{},"exportDate":"2024-01-05T10:00:00.000Z","version":"1.2.0"}''
      then Inr (JObj [(''transactions'', JArr [JObj [(''id'', JStr ''t1'')]]),
                      (''budgets'', JObj []),
                      (''settings'', JObj []),
                      (''categories'', JObj []),
                      (''exportDate'', JStr ''2024-01-05T10:00:00.000Z''),
                      (''version'', JStr ''1.2.0'')])
      else if text = ''{"transactions":[{"id":"t1","date":"2024-01-01"},{"id":"t2","date":"2024-01-05"}],"budgets":{},"settings":{},"categories":{},"exportDate":"2024-01-05T10:00:00.000Z","version":"1.2.0"}''
      then Inr (JObj [(''transactions'',
                         JArr [JObj [(''id'', JStr ''t1''), (''date'', JStr ''2024-01-01'')],
                               JObj [(''id'', JStr ''t2''), (''date'', JStr ''2024-01-05'')]]),
                      (''budgets'', JObj []),
                      (''settings'', JObj []),
                      (''categories'', JObj []),
                      (''exportDate'', JStr ''2024-01-05T10:00:00.000Z''),
                      (''version'', JStr ''1.2.0'')])
      else if text = ''{"transactions":[{"id":"t1"}],"exportDate":"2024-01-05T10:00:00.000Z","version":"1.2.0"}''
      then Inr (JObj [(''transactions'', JArr [JObj [(''id'', JStr ''t1'')]]),
                      (''exportDate'', JStr ''2024-01-05T10:00:00.000Z''),
                      (''version'', JStr ''1.2.0'')])
      else Inl SyntaxError)\<close>


section \<open>Export and import: \<open>exportData\<close>, \<open>importData\<close>\<close>





section \<open>Adding a transaction and clearing the data\<close>

text \<open>
  What \<open>parseFloat\<close> returns: \<open>NaN\<close>, a finite number, or an infinity (for the text
  \<open>Infinity\<close> or \<open>-Infinity\<close>).
\<close>

datatype jsnumber = NaN | Finite real | PosInfinity | NegInfinity

text \<open>The number as a stored value; \<open>None\<close> when \<open>!amount\<close> holds, that is for \<open>NaN\<close> and 0.\<close>

fun storedAmount :: "jsnumber \<Rightarrow> jsval option" where
  "storedAmount NaN = None"
| "storedAmount (Finite a) = (if a = 0 then None else Some (JNum a))"
| "storedAmount PosInfinity = Some JPosInfinity"
| "storedAmount NegInfinity = Some JNegInfinity"

text \<open>
  The fields of the transaction form as \<open>addTransaction\<close> reads them; the amount is the
  result of \<open>parseFloat\<close> on the amount field.
\<close>

record transactionForm =
  transactionType :: string
  transactionAmount :: jsnumber
  transactionCategory :: string
  transactionDescription :: string
  transactionDate :: string

text \<open>
  \<open>addTransaction()\<close> of the current script: the state it leaves and the exception it
  throws, if any; \<open>now\<close> is \<open>Date.now().toString()\<close>. A rejected submission shows an
  alert and returns with the state as it was; \<open>this.transactions.push\<close> throws when the
  field holds no array. After the push come \<open>saveData\<close>, which stores the array as
  pushed, the redraw, whose \<open>updateDashboard\<close> sorts it in place, and \<open>checkAlerts\<close>.
\<close>

definition addTransaction ::
  "(jsval \<Rightarrow> int option) \<Rightarrow> string \<Rightarrow> transactionForm \<Rightarrow> app \<Rightarrow> app \<times> error option" where
  "addTransaction newDate now form s =
     (case storedAmount (transactionAmount form) of
        None \<Rightarrow> (s, None)
      | Some amount \<Rightarrow>
          if transactionCategory form = [] \<or> transactionDate form = [] then (s, None)
          else (case transactions s of
                  JArr ts \<Rightarrow>
                    (let s1 = s\<lparr>transactions :=
                                 JArr (ts @ [JObj [(''id'', JStr now),
                                                   (''type'', JStr (transactionType form)),
                                                   (''amount'', amount),
                                                   (''category'', JStr (transactionCategory form)),
                                                   (''description'', JStr (transactionDescription form)),
                                                   (''date'', JStr (transactionDate form))]])\<rparr>
                     in case updateDashboard newDate s1 of
                          (s2, Some e) \<Rightarrow> (s2, Some e)
                        | (s2, None) \<Rightarrow> (s2, checkAlerts s2))
                | _ \<Rightarrow> (s, Some TypeError)))"

text \<open>
  \<open>clearAllData\<close> (both scripts make the same assignments); \<open>confirmed\<close> is the answer
  to the \<open>confirm\<close> dialog.
\<close>

definition clearAllData :: "bool \<Rightarrow> app \<Rightarrow> app" where
  "clearAllData confirmed s =
     (if confirmed
      then s\<lparr>transactions := JArr [], budgets := JObj [], settings := defaultSettings\<rparr>
      else s)"

section \<open>Properties of \<open>findIndex\<close>\<close>

lemma findIndex_None_iff: "findIndex P xs = None \<longleftrightarrow> (\<forall>x \<in> set xs. \<not> P x)"
  by (induction xs) auto

lemma findIndex_Some_D:
  "findIndex P xs = Some j \<Longrightarrow> j < length xs \<and> P (xs ! j) \<and> (\<forall>i < j. \<not> P (xs ! i))"
proof (induction xs arbitrary: j)
  case Nil
  then show ?case by simp
next
  case (Cons x xs)
  show ?case
  proof (cases "P x")
    case True
    with Cons.prems show ?thesis by simp
  next
    case False
    with Cons.prems obtain j' where j': "findIndex P xs = Some j'" and j: "j = Suc j'"
      by auto
    from Cons.IH [OF j'] have "j' < length xs" "P (xs ! j')" "\<forall>i < j'. \<not> P (xs ! i)"
      by auto
    with False j show ?thesis
      by (auto simp: nth_Cons split: nat.splits)
  qed
qed

section \<open>Lists updated at one index\<close>

lemma filter_update_other:
  "j < length xs \<Longrightarrow> \<not> P (xs ! j) \<Longrightarrow> \<not> P y \<Longrightarrow> filter P (xs[j := y]) = filter P xs"
proof (induction xs arbitrary: j)
  case Nil
  then show ?case by simp
next
  case (Cons x xs)
  then show ?case by (cases j) auto
qed

lemma filter_single_nth:
  assumes "filter P xs = [a]" "j < length xs" "P (xs ! j)"
  shows "xs ! j = a"
proof -
  from assms(2,3) have "xs ! j \<in> set (filter P xs)" by simp
  with assms(1) show ?thesis by simp
qed

lemma filter_update_single:
  "filter P xs = [a] \<Longrightarrow> j < length xs \<Longrightarrow> P (xs ! j) \<Longrightarrow> P c \<Longrightarrow> filter P (xs[j := c]) = [c]"
proof (induction xs arbitrary: j)
  case Nil
  then show ?case by simp
next
  case (Cons x xs)
  show ?case
  proof (cases j)
    case 0
    with Cons.prems show ?thesis by simp
  next
    case (Suc j')
    with Cons.prems have j': "j' < length xs" "P (xs ! j')" by auto
    then have ne: "filter P xs \<noteq> []"
      by (metis filter_empty_conv nth_mem)
    with Cons.prems(1) have nx: "\<not> P x" by (auto split: if_splits)
    with Cons.prems(1) have "filter P xs = [a]" by simp
    from Cons.IH [OF this j' Cons.prems(4)] nx Suc show ?thesis by simp
  qed
qed

section \<open>One step of the merge loop\<close>

lemma mergeStep_cases:
  assumes inv: "set localKeys \<subseteq> (\<lambda>item. getProp item k) ` set merged"
  obtains
    (new) "getProp c k \<notin> set localKeys"
          "mergeStep nd k localKeys merged c = Inr (merged @ [c])"
  | (keep) j where "getProp c k \<in> set localKeys"
          "j < length merged" "getProp (merged ! j) k = getProp c k"
          "findIndex (\<lambda>item. getProp item k = getProp c k) merged = Some j"
          "\<not> dateGt (nd (timeSource c)) (nd (timeSource (merged ! j)))"
          "mergeStep nd k localKeys merged c = Inr merged"
  | (replace) j where "getProp c k \<in> set localKeys"
          "j < length merged" "getProp (merged ! j) k = getProp c k"
          "findIndex (\<lambda>item. getProp item k = getProp c k) merged = Some j"
          "dateGt (nd (timeSource c)) (nd (timeSource (merged ! j)))"
          "mergeStep nd k localKeys merged c = Inr (merged[j := c])"
proof (cases "getProp c k \<in> set localKeys")
  case False
  then show ?thesis using new by (simp add: mergeStep_def)
next
  case True
  with inv have "getProp c k \<in> (\<lambda>item. getProp item k) ` set merged" by blast
  then have "\<exists>x \<in> set merged. getProp x k = getProp c k" by force
  then have "findIndex (\<lambda>item. getProp item k = getProp c k) merged \<noteq> None"
    by (simp add: findIndex_None_iff)
  then obtain j where j: "findIndex (\<lambda>item. getProp item k = getProp c k) merged = Some j"
    by auto
  from findIndex_Some_D [OF j] have jl: "j < length merged"
    and jk: "getProp (merged ! j) k = getProp c k" by auto
  show ?thesis
  proof (cases "dateGt (nd (timeSource c)) (nd (timeSource (merged ! j)))")
    case gt: True
    then have "mergeStep nd k localKeys merged c = Inr (merged[j := c])"
      using True j by (simp add: mergeStep_def)
    with True jl jk j gt show ?thesis using replace by blast
  next
    case ngt: False
    then have "mergeStep nd k localKeys merged c = Inr merged"
      using True j by (simp add: mergeStep_def)
    with True jl jk j ngt show ?thesis using keep by blast
  qed
qed

lemma map_update_same_key:
  assumes "j < length xs" "f (xs ! j) = f c"
  shows "map f (xs[j := c]) = map f xs"
proof -
  have "map f (xs[j := c]) = (map f xs)[j := f c]" by (simp add: map_update)
  also have "\<dots> = (map f xs)[j := (map f xs) ! j]" using assms by simp
  also have "\<dots> = map f xs" by (rule list_update_id)
  finally show ?thesis .
qed

lemma mergeStep_keys:
  assumes inv: "set localKeys \<subseteq> (\<lambda>item. getProp item k) ` set merged"
  shows "\<exists>m'. mergeStep nd k localKeys merged c = Inr m'
          \<and> (\<lambda>item. getProp item k) ` set m' = insert (getProp c k) ((\<lambda>item. getProp item k) ` set merged)"
  using inv
proof (cases rule: mergeStep_cases [where c = c and nd = nd])
  case new
  then show ?thesis by auto
next
  case (keep j)
  with inv show ?thesis by auto
next
  case (replace j)
  have "map (\<lambda>item. getProp item k) (merged[j := c]) = map (\<lambda>item. getProp item k) merged"
    using replace(2,3) by (rule map_update_same_key)
  then have "set (map (\<lambda>item. getProp item k) (merged[j := c])) = set (map (\<lambda>item. getProp item k) merged)"
    by simp
  then have "(\<lambda>item. getProp item k) ` set (merged[j := c]) = (\<lambda>item. getProp item k) ` set merged"
    by (simp only: set_map)
  with replace inv show ?thesis by auto
qed

lemma forEach_keys:
  "set localKeys \<subseteq> (\<lambda>item. getProp item k) ` set merged \<Longrightarrow>
   \<exists>R. forEach (mergeStep nd k localKeys) merged B = Inr R
     \<and> (\<lambda>item. getProp item k) ` set R
         = (\<lambda>item. getProp item k) ` set merged \<union> (\<lambda>item. getProp item k) ` set B"
proof (induction B arbitrary: merged)
  case Nil
  then show ?case by simp
next
  case (Cons c B)
  from mergeStep_keys [OF Cons.prems, of nd c] obtain m' where
    m': "mergeStep nd k localKeys merged c = Inr m'"
    and keys: "(\<lambda>item. getProp item k) ` set m' = insert (getProp c k) ((\<lambda>item. getProp item k) ` set merged)"
    by blast
  from keys Cons.prems have "set localKeys \<subseteq> (\<lambda>item. getProp item k) ` set m'" by auto
  from Cons.IH [OF this] obtain R where
    R: "forEach (mergeStep nd k localKeys) m' B = Inr R"
    and Rk: "(\<lambda>item. getProp item k) ` set R
         = (\<lambda>item. getProp item k) ` set m' \<union> (\<lambda>item. getProp item k) ` set B"
    by blast
  from m' R have "forEach (mergeStep nd k localKeys) merged (c # B) = Inr R" by simp
  moreover from Rk keys have "(\<lambda>item. getProp item k) ` set R
         = (\<lambda>item. getProp item k) ` set merged \<union> (\<lambda>item. getProp item k) ` set (c # B)"
    by auto
  ultimately show ?case by blast
qed

section \<open>The merge of two arrays of records drops no key\<close>

text \<open>
  For every local array \<open>A\<close> and cloud array \<open>B\<close> of records, \<open>mergeArrayData\<close> returns
  (it does not throw), and the key values of the records it returns are exactly those of
  \<open>A\<close> together with those of \<open>B\<close>. This is the case of the transactions; the budgets and
  the categories, which \<open>mergeCloudData\<close> merges with the same function, are no arrays
  (see the section on the downloaded budgets and categories).
\<close>

lemma mergeArrayData_keeps_every_key:
  "\<exists>R. mergeArrayData newDate A B keyField = Inr R
     \<and> (\<lambda>item. getProp item keyField) ` set R
         = (\<lambda>item. getProp item keyField) ` set A \<union> (\<lambda>item. getProp item keyField) ` set B"
proof -
  have "set (map (\<lambda>item. getProp item keyField) A) \<subseteq> (\<lambda>item. getProp item keyField) ` set A"
    by simp
  from forEach_keys [OF this, of newDate B] show ?thesis
    by (simp add: mergeArrayData_def)
qed

section \<open>Conflicts: the later record wins\<close>

lemma mergeStep_inv:
  assumes inv: "set localKeys \<subseteq> (\<lambda>item. getProp item k) ` set merged"
    and step: "mergeStep nd k localKeys merged c = Inr m'"
  shows "set localKeys \<subseteq> (\<lambda>item. getProp item k) ` set m'"
proof -
  from mergeStep_keys [OF inv, of nd c] step
  have "(\<lambda>item. getProp item k) ` set m' = insert (getProp c k) ((\<lambda>item. getProp item k) ` set merged)"
    by auto
  with inv show ?thesis by auto
qed

lemma mergeStep_other_key:
  assumes inv: "set localKeys \<subseteq> (\<lambda>item. getProp item k) ` set merged"
    and other: "getProp c k \<noteq> kv"
  shows "\<exists>m'. mergeStep nd k localKeys merged c = Inr m'
           \<and> filter (\<lambda>item. getProp item k = kv) m' = filter (\<lambda>item. getProp item k = kv) merged"
  using inv
proof (cases rule: mergeStep_cases [where c = c and nd = nd])
  case new
  with other show ?thesis by simp
next
  case (keep j)
  then show ?thesis by simp
next
  case (replace j)
  from replace(3) other have "getProp (merged ! j) k \<noteq> kv" by simp
  with replace(2) other
  have "filter (\<lambda>item. getProp item k = kv) (merged[j := c]) = filter (\<lambda>item. getProp item k = kv) merged"
    by (intro filter_update_other) auto
  with replace(6) show ?thesis by simp
qed

lemma forEach_other_keys:
  "set localKeys \<subseteq> (\<lambda>item. getProp item k) ` set merged \<Longrightarrow>
   filter (\<lambda>item. getProp item k = kv) B = [] \<Longrightarrow>
   \<exists>R. forEach (mergeStep nd k localKeys) merged B = Inr R
     \<and> filter (\<lambda>item. getProp item k = kv) R = filter (\<lambda>item. getProp item k = kv) merged"
proof (induction B arbitrary: merged)
  case Nil
  then show ?case by simp
next
  case (Cons c B)
  from Cons.prems(2) have other: "getProp c k \<noteq> kv"
    and rest: "filter (\<lambda>item. getProp item k = kv) B = []"
    by (auto split: if_splits)
  from mergeStep_other_key [OF Cons.prems(1) other, of nd] obtain m' where
    m': "mergeStep nd k localKeys merged c = Inr m'"
    and f: "filter (\<lambda>item. getProp item k = kv) m' = filter (\<lambda>item. getProp item k = kv) merged"
    by blast
  from mergeStep_inv [OF Cons.prems(1) m'] Cons.IH [OF _ rest] obtain R where
    "forEach (mergeStep nd k localKeys) m' B = Inr R"
    "filter (\<lambda>item. getProp item k = kv) R = filter (\<lambda>item. getProp item k = kv) m'"
    by blast
  with m' f show ?case by simp
qed

lemma mergeStep_conflict:
  assumes inv: "set localKeys \<subseteq> (\<lambda>item. getProp item k) ` set merged"
    and local: "filter (\<lambda>item. getProp item k = kv) merged = [a]"
    and known: "kv \<in> set localKeys"
    and ck: "getProp c k = kv"
  shows "\<exists>m'. mergeStep nd k localKeys merged c = Inr m'
           \<and> filter (\<lambda>item. getProp item k = kv) m'
               = [if dateGt (nd (timeSource c)) (nd (timeSource a)) then c else a]"
  using inv
proof (cases rule: mergeStep_cases [where c = c and nd = nd])
  case new
  with known ck show ?thesis by simp
next
  case (keep j)
  from keep(2,3) ck have "merged ! j = a"
    by (intro filter_single_nth [OF local]) auto
  with keep(5,6) local show ?thesis by simp
next
  case (replace j)
  from replace(2,3) ck have a: "merged ! j = a"
    by (intro filter_single_nth [OF local]) auto
  from replace(2,3) ck
  have "filter (\<lambda>item. getProp item k = kv) (merged[j := c]) = [c]"
    by (intro filter_update_single [OF local]) auto
  with replace(5,6) a show ?thesis by simp
qed

lemma forEach_conflict:
  "set localKeys \<subseteq> (\<lambda>item. getProp item k) ` set merged \<Longrightarrow>
   filter (\<lambda>item. getProp item k = kv) merged = [a] \<Longrightarrow>
   kv \<in> set localKeys \<Longrightarrow>
   filter (\<lambda>item. getProp item k = kv) B = [c] \<Longrightarrow>
   \<exists>R. forEach (mergeStep nd k localKeys) merged B = Inr R
     \<and> filter (\<lambda>item. getProp item k = kv) R
         = [if dateGt (nd (timeSource c)) (nd (timeSource a)) then c else a]"
proof (induction B arbitrary: merged)
  case Nil
  then show ?case by simp
next
  case (Cons b B)
  show ?case
  proof (cases "getProp b k = kv")
    case True
    with Cons.prems(4) have bc: "b = c"
      and rest: "filter (\<lambda>item. getProp item k = kv) B = []"
      by auto
    from mergeStep_conflict [OF Cons.prems(1,2,3) True, of nd] obtain m' where
      m': "mergeStep nd k localKeys merged b = Inr m'"
      and f: "filter (\<lambda>item. getProp item k = kv) m'
               = [if dateGt (nd (timeSource b)) (nd (timeSource a)) then b else a]"
      by blast
    from forEach_other_keys [OF mergeStep_inv [OF Cons.prems(1) m'] rest, of nd] obtain R where
      "forEach (mergeStep nd k localKeys) m' B = Inr R"
      "filter (\<lambda>item. getProp item k = kv) R = filter (\<lambda>item. getProp item k = kv) m'"
      by blast
    with m' f bc show ?thesis by simp
  next
    case False
    with Cons.prems(4) have rest: "filter (\<lambda>item. getProp item k = kv) B = [c]" by simp
    from mergeStep_other_key [OF Cons.prems(1) False, of nd] obtain m' where
      m': "mergeStep nd k localKeys merged b = Inr m'"
      and f: "filter (\<lambda>item. getProp item k = kv) m' = filter (\<lambda>item. getProp item k = kv) merged"
      by blast
    from f Cons.prems(2) have "filter (\<lambda>item. getProp item k = kv) m' = [a]" by simp
    from Cons.IH [OF mergeStep_inv [OF Cons.prems(1) m'] this Cons.prems(3) rest] m'
    show ?thesis by simp
  qed
qed

lemma mergeArrayData_conflict:
  assumes "filter (\<lambda>item. getProp item k = kv) A = [a]"
    and "filter (\<lambda>item. getProp item k = kv) B = [c]"
  shows "\<exists>R. mergeArrayData nd A B k = Inr R
     \<and> filter (\<lambda>item. getProp item k = kv) R
         = [if dateGt (nd (timeSource c)) (nd (timeSource a)) then c else a]"
proof -
  from assms(1) have "a \<in> set (filter (\<lambda>item. getProp item k = kv) A)" by simp
  then have "a \<in> set A" "getProp a k = kv" by auto
  then have known: "kv \<in> set (map (\<lambda>item. getProp item k) A)" by force
  have inv: "set (map (\<lambda>item. getProp item k) A) \<subseteq> (\<lambda>item. getProp item k) ` set A" by simp
  from forEach_conflict [OF inv assms(1) known assms(2), of nd] show ?thesis
    by (simp add: mergeArrayData_def)
qed

text \<open>
  Claim C2. Let the key value \<open>kv\<close> have exactly one record \<open>a\<close> in \<open>A\<close> and exactly
  one record \<open>b\<close> in \<open>B\<close>, whose time sources (the \<open>timestamp\<close> field, else the \<open>date\<close>
  field) give valid dates with different time values \<open>ta\<close> and \<open>tb\<close>. Then the merge
  returns, its result holds exactly one record with that key, the one with the later
  time value, and this is so whichever of the two arrays is passed as the local and
  which as the cloud argument.
\<close>

theorem mergeArrayData_later_record_wins:
  assumes "filter (\<lambda>item. getProp item keyField = kv) A = [a]"
    and "filter (\<lambda>item. getProp item keyField = kv) B = [b]"
    and "newDate (timeSource a) = Some ta"
    and "newDate (timeSource b) = Some tb"
    and "ta \<noteq> tb"
  shows "\<exists>R R'. mergeArrayData newDate A B keyField = Inr R
           \<and> mergeArrayData newDate B A keyField = Inr R'
           \<and> filter (\<lambda>item. getProp item keyField = kv) R = [if ta < tb then b else a]
           \<and> filter (\<lambda>item. getProp item keyField = kv) R' = [if ta < tb then b else a]"
proof -
  from mergeArrayData_conflict [OF assms(1,2), of newDate] obtain R where
    R: "mergeArrayData newDate A B keyField = Inr R"
    "filter (\<lambda>item. getProp item keyField = kv) R
       = [if dateGt (newDate (timeSource b)) (newDate (timeSource a)) then b else a]"
    by blast
  from mergeArrayData_conflict [OF assms(2,1), of newDate] obtain R' where
    R': "mergeArrayData newDate B A keyField = Inr R'"
    "filter (\<lambda>item. getProp item keyField = kv) R'
       = [if dateGt (newDate (timeSource a)) (newDate (timeSource b)) then a else b]"
    by blast
  from assms(3,4,5) have "dateGt (newDate (timeSource b)) (newDate (timeSource a)) = (ta < tb)"
    "dateGt (newDate (timeSource a)) (newDate (timeSource b)) = (\<not> ta < tb)"
    by (auto simp: dateGt_def)
  with R R' show ?thesis by simp
qed

text \<open>
  The scenario of the specification: the local \<open>t1\<close> of 1 January against the cloud
  \<open>t1\<close> of 5 January (and a cloud-only \<open>t2\<close>); the cloud record wins in both orders.
\<close>

theorem mergeArrayData_later_record_wins_witness:
  "filter (\<lambda>item. getProp item ''id'' = JStr ''t1'')
     [[(''id'', JStr ''t1''), (''amount'', JNum 20), (''date'', JStr ''2024-01-01'')]]
     = [[(''id'', JStr ''t1''), (''amount'', JNum 20), (''date'', JStr ''2024-01-01'')]]
   \<and> filter (\<lambda>item. getProp item ''id'' = JStr ''t1'')
     [[(''id'', JStr ''t1''), (''amount'', JNum 25), (''date'', JStr ''2024-01-05'')],
      [(''id'', JStr ''t2''), (''amount'', JNum 10), (''date'', JStr ''2024-01-02'')]]
     = [[(''id'', JStr ''t1''), (''amount'', JNum 25), (''date'', JStr ''2024-01-05'')]]
   \<and> exampleDate (timeSource [(''id'', JStr ''t1''), (''amount'', JNum 20), (''date'', JStr ''2024-01-01'')])
     = Some 1704067200000
   \<and> exampleDate (timeSource [(''id'', JStr ''t1''), (''amount'', JNum 25), (''date'', JStr ''2024-01-05'')])
     = Some 1704412800000
   \<and> (1704067200000 :: int) \<noteq> 1704412800000
   \<and> (\<exists>R R'.
        mergeArrayData exampleDate
          [[(''id'', JStr ''t1''), (''amount'', JNum 20), (''date'', JStr ''2024-01-01'')]]
          [[(''id'', JStr ''t1''), (''amount'', JNum 25), (''date'', JStr ''2024-01-05'')],
           [(''id'', JStr ''t2''), (''amount'', JNum 10), (''date'', JStr ''2024-01-02'')]]
          ''id'' = Inr R
      \<and> mergeArrayData exampleDate
          [[(''id'', JStr ''t1''), (''amount'', JNum 25), (''date'', JStr ''2024-01-05'')],
           [(''id'', JStr ''t2''), (''amount'', JNum 10), (''date'', JStr ''2024-01-02'')]]
          [[(''id'', JStr ''t1''), (''amount'', JNum 20), (''date'', JStr ''2024-01-01'')]]
          ''id'' = Inr R'
      \<and> filter (\<lambda>item. getProp item ''id'' = JStr ''t1'') R
          = [[(''id'', JStr ''t1''), (''amount'', JNum 25), (''date'', JStr ''2024-01-05'')]]
      \<and> filter (\<lambda>item. getProp item ''id'' = JStr ''t1'') R'
          = [[(''id'', JStr ''t1''), (''amount'', JNum 25), (''date'', JStr ''2024-01-05'')]])"
proof -
  have h1: "filter (\<lambda>item. getProp item ''id'' = JStr ''t1'')
     [[(''id'', JStr ''t1''), (''amount'', JNum 20), (''date'', JStr ''2024-01-01'')]]
     = [[(''id'', JStr ''t1''), (''amount'', JNum 20), (''date'', JStr ''2024-01-01'')]]"
    by (simp add: getProp_def)
  have h2: "filter (\<lambda>item. getProp item ''id'' = JStr ''t1'')
     [[(''id'', JStr ''t1''), (''amount'', JNum 25), (''date'', JStr ''2024-01-05'')],
      [(''id'', JStr ''t2''), (''amount'', JNum 10), (''date'', JStr ''2024-01-02'')]]
     = [[(''id'', JStr ''t1''), (''amount'', JNum 25), (''date'', JStr ''2024-01-05'')]]"
    by (simp add: getProp_def)
  have h3: "exampleDate (timeSource [(''id'', JStr ''t1''), (''amount'', JNum 20), (''date'', JStr ''2024-01-01'')])
     = Some 1704067200000"
    by (simp add: exampleDate_def timeSource_def orElse_def getProp_def)
  have h4: "exampleDate (timeSource [(''id'', JStr ''t1''), (''amount'', JNum 25), (''date'', JStr ''2024-01-05'')])
     = Some 1704412800000"
    by (simp add: exampleDate_def timeSource_def orElse_def getProp_def)
  have h5: "(1704067200000 :: int) \<noteq> 1704412800000" by simp
  from mergeArrayData_later_record_wins [OF h1 h2 h3 h4 h5] h1 h2 h3 h4 h5
  show ?thesis by simp
qed

section \<open>Merging an array with itself\<close>

lemma mergeStep_same:
  assumes d: "distinct (map (\<lambda>item. getProp item k) A)" and c: "c \<in> set A"
  shows "mergeStep nd k (map (\<lambda>item. getProp item k) A) A c = Inr A"
proof -
  have inv: "set (map (\<lambda>item. getProp item k) A) \<subseteq> (\<lambda>item. getProp item k) ` set A" by simp
  from c have known: "getProp c k \<in> set (map (\<lambda>item. getProp item k) A)" by force
  from c obtain i where i: "i < length A" "A ! i = c" by (auto simp: in_set_conv_nth)
  have same: "A ! j = c" if "j < length A" "getProp (A ! j) k = getProp c k" for j
  proof -
    from that i have "map (\<lambda>item. getProp item k) A ! j = map (\<lambda>item. getProp item k) A ! i"
      by simp
    moreover have "(map (\<lambda>item. getProp item k) A ! j = map (\<lambda>item. getProp item k) A ! i) = (j = i)"
      using d that(1) i(1) by (intro nth_eq_iff_index_eq) simp_all
    ultimately have "j = i" by simp
    with i show ?thesis by simp
  qed
  from inv show ?thesis
  proof (cases rule: mergeStep_cases [where c = c and nd = nd])
    case new
    with known show ?thesis by simp
  next
    case (keep j)
    then show ?thesis by simp
  next
    case (replace j)
    from same [OF replace(2,3)] have "A[j := c] = A" by (metis list_update_id)
    with replace(6) show ?thesis by simp
  qed
qed

lemma forEach_same:
  "distinct (map (\<lambda>item. getProp item k) A) \<Longrightarrow> set B \<subseteq> set A \<Longrightarrow>
   forEach (mergeStep nd k (map (\<lambda>item. getProp item k) A)) A B = Inr A"
  by (induction B) (simp_all add: mergeStep_same)

text \<open>
  Claim C3, as amended. For every array \<open>A\<close> in which no two records have the same key
  value, merging \<open>A\<close> with itself returns \<open>A\<close>.
\<close>

theorem mergeArrayData_idempotent:
  assumes "distinct (map (\<lambda>item. getProp item keyField) A)"
  shows "mergeArrayData newDate A A keyField = Inr A"
  using forEach_same [OF assms, of A newDate] by (simp add: mergeArrayData_def)

theorem mergeArrayData_idempotent_witness:
  "distinct (map (\<lambda>item. getProp item ''id'')
     [[(''id'', JStr ''t1''), (''amount'', JNum 25), (''date'', JStr ''2024-01-05'')],
      [(''id'', JStr ''t2''), (''amount'', JNum 10), (''date'', JStr ''2024-01-02'')]])
   \<and> mergeArrayData exampleDate
     [[(''id'', JStr ''t1''), (''amount'', JNum 25), (''date'', JStr ''2024-01-05'')],
      [(''id'', JStr ''t2''), (''amount'', JNum 10), (''date'', JStr ''2024-01-02'')]]
     [[(''id'', JStr ''t1''), (''amount'', JNum 25), (''date'', JStr ''2024-01-05'')],
      [(''id'', JStr ''t2''), (''amount'', JNum 10), (''date'', JStr ''2024-01-02'')]]
     ''id''
     = Inr [[(''id'', JStr ''t1''), (''amount'', JNum 25), (''date'', JStr ''2024-01-05'')],
            [(''id'', JStr ''t2''), (''amount'', JNum 10), (''date'', JStr ''2024-01-02'')]]"
proof -
  have h: "distinct (map (\<lambda>item. getProp item ''id'')
     [[(''id'', JStr ''t1''), (''amount'', JNum 25), (''date'', JStr ''2024-01-05'')],
      [(''id'', JStr ''t2''), (''amount'', JNum 10), (''date'', JStr ''2024-01-02'')]])"
    by (simp add: getProp_def)
  from mergeArrayData_idempotent [OF h, of exampleDate] h show ?thesis by simp
qed

text \<open>
  Claim C3 as stated fails on an array that holds two records with one key: the pass
  over the second record finds the first one, which is older, and overwrites it, so the
  result holds the newer record twice.
\<close>

theorem mergeArrayData_self_duplicate_key:
  "mergeArrayData exampleDate
     [[(''id'', JStr ''t1''), (''amount'', JNum 20), (''date'', JStr ''2024-01-01'')],
      [(''id'', JStr ''t1''), (''amount'', JNum 25), (''date'', JStr ''2024-01-05'')]]
     [[(''id'', JStr ''t1''), (''amount'', JNum 20), (''date'', JStr ''2024-01-01'')],
      [(''id'', JStr ''t1''), (''amount'', JNum 25), (''date'', JStr ''2024-01-05'')]]
     ''id''
   \<noteq> Inr [[(''id'', JStr ''t1''), (''amount'', JNum 20), (''date'', JStr ''2024-01-01'')],
           [(''id'', JStr ''t1''), (''amount'', JNum 25), (''date'', JStr ''2024-01-05'')]]"
  by (simp add: mergeArrayData_def mergeStep_def getProp_def timeSource_def orElse_def
      exampleDate_def dateGt_def)

section \<open>Arrays of records as values\<close>

text \<open>
  On arrays of records, the merge on values is the merge on records of the sections
  above.
\<close>

lemma findIndex_map: "findIndex P (map f xs) = findIndex (\<lambda>x. P (f x)) xs"
  by (induction xs) simp_all

lemma mergeStepJS_records:
  "mergeStepJS newDate keyField localKeys (map JObj merged) (JObj c)
     = map_sum id (map JObj) (mergeStep newDate keyField localKeys merged c)"
proof (cases "getProp c keyField \<in> set localKeys")
  case False
  then show ?thesis
    by (simp add: mergeStepJS_def mergeStep_def field_def)
next
  case True
  show ?thesis
  proof (cases "findIndex (\<lambda>item. getProp item keyField = getProp c keyField) merged")
    case None
    with True show ?thesis
      by (simp add: mergeStepJS_def mergeStep_def field_def findIndex_map)
  next
    case (Some j)
    from findIndex_Some_D [OF Some] have j: "j < length merged" by simp
    from True Some j show ?thesis
      by (simp add: mergeStepJS_def mergeStep_def field_def findIndex_map Let_def
          timeSourceJS_def timeSource_def map_update)
  qed
qed

lemma forEach_records:
  "forEach (mergeStepJS newDate keyField localKeys) (map JObj merged) (map JObj B)
     = map_sum id (map JObj) (forEach (mergeStep newDate keyField localKeys) merged B)"
proof (induction B arbitrary: merged)
  case Nil
  show ?case by simp
next
  case (Cons c B)
  show ?case
  proof (cases "mergeStep newDate keyField localKeys merged c")
    case (Inl e)
    then show ?thesis by (simp add: mergeStepJS_records)
  next
    case (Inr merged')
    then show ?thesis by (simp add: mergeStepJS_records Cons.IH)
  qed
qed

lemma mergeArrayDataJS_records:
  "mergeArrayDataJS newDate (JArr (map JObj A)) (JArr (map JObj B)) keyField
     = map_sum id (\<lambda>merged. JArr (map JObj merged)) (mergeArrayData newDate A B keyField)"
proof -
  have n: "\<not> list_ex nullish (map JObj A)"
    by (simp add: list_ex_iff)
  have k: "map (\<lambda>item. field item keyField) (map JObj A) = map (\<lambda>item. getProp item keyField) A"
    by (simp add: field_def)
  have fe: "forEach (mergeStepJS newDate keyField (map (\<lambda>item. field item keyField) (map JObj A)))
              (map JObj A) (map JObj B)
            = map_sum id (map JObj)
                (forEach (mergeStep newDate keyField (map (\<lambda>item. getProp item keyField) A)) A B)"
    unfolding k by (rule forEach_records)
  show ?thesis
    using n
    by (cases "forEach (mergeStep newDate keyField (map (\<lambda>item. getProp item keyField) A)) A B")
      (simp_all add: mergeArrayDataJS_def mergeArrayData_def Let_def fe del: map_map)
qed

text \<open>
  An array of names, as the values of the categories are, is merged as an array whose
  elements all have the key \<open>undefined\<close>: the first downloaded name is compared with the
  first local one, and neither has a date.
\<close>

lemma mergeArrayDataJS_names:
  "mergeArrayDataJS exampleDate (JArr [JStr ''Salary'']) (JArr [JStr ''Salary'', JStr ''Bonus''])
     ''name'' = Inr (JArr [JStr ''Salary''])"
  by (simp add: mergeArrayDataJS_def mergeStepJS_def field_def timeSourceJS_def orElse_def
      exampleDate_def dateGt_def)

section \<open>Properties of objects\<close>

lemma getProp_setProp:
  "getProp (setProp target name v) f = (if f = name then v else getProp target f)"
  by (simp add: getProp_def setProp_def update_conv')

lemma getProp_Cons:
  "getProp ((name, v) # item) f = (if f = name then v else getProp item f)"
  by (simp add: getProp_def)

lemma getProp_Nil: "getProp [] f = JUndefined"
  by (simp add: getProp_def)

lemma getProp_absent:
  assumes "f \<notin> fst ` set item"
  shows "getProp item f = JUndefined"
proof -
  from assms have "map_of item f = None" by (simp add: map_of_eq_None_iff)
  then show ?thesis by (simp add: getProp_def)
qed

lemma getProp_assign:
  "distinct (map fst source) \<Longrightarrow>
   getProp (assign target source) f
     = (if f \<in> fst ` set source then getProp source f else getProp target f)"
proof (induction source arbitrary: target)
  case Nil
  then show ?case by (simp add: assign_def)
next
  case (Cons p source)
  obtain name v where p: "p = (name, v)" by (cases p)
  from Cons.prems p have fresh: "name \<notin> fst ` set source" and d: "distinct (map fst source)"
    by auto
  have step: "assign target ((name, v) # source) = assign (setProp target name v) source"
    by (simp add: assign_def)
  note IH = Cons.IH [OF d, of "setProp target name v"]
  show ?case
  proof (cases "f \<in> fst ` set source")
    case True
    with fresh have "f \<noteq> name" by auto
    with True IH show ?thesis
      unfolding p step by (simp add: getProp_Cons)
  next
    case False
    with IH show ?thesis
      unfolding p step by (simp add: getProp_Cons getProp_setProp)
  qed
qed

lemma getProp_spread:
  assumes "distinct (map fst a)" "distinct (map fst b)"
  shows "getProp (spread a b) f = (if f \<in> fst ` set b then getProp b f else getProp a f)"
  using assms by (auto simp: spread_def getProp_assign getProp_Nil getProp_absent)

section \<open>The settings merge is a field-wise overlay\<close>

text \<open>
  Claim C4, as amended. For every local and every cloud settings object (each names a
  property once), the merged settings have, in a field other than \<open>deviceId\<close> and
  \<open>lastLocalSync\<close>, the cloud value when the cloud object has that field and the local
  value otherwise; \<open>deviceId\<close> and \<open>lastLocalSync\<close> always have their local values.
\<close>

theorem mergeSettings_fields:
  assumes "distinct (map fst localSettings)" and "distinct (map fst cloudSettings)"
  shows "getProp (mergeSettings localSettings cloudSettings) f
           = (if f = ''deviceId'' \<or> f = ''lastLocalSync'' then getProp localSettings f
              else if f \<in> fst ` set cloudSettings then getProp cloudSettings f
              else getProp localSettings f)"
  using assms by (simp add: mergeSettings_def Let_def getProp_setProp getProp_spread)

theorem mergeSettings_fields_witness:
  "distinct (map fst [(''lowBalanceThreshold'', JNum 100), (''overspendingAlert'', JNum 80),
                      (''deviceId'', JStr ''device_1'')])
   \<and> distinct (map fst [(''lowBalanceThreshold'', JNum 50), (''deviceId'', JStr ''device_2'')])
   \<and> getProp (mergeSettings
        [(''lowBalanceThreshold'', JNum 100), (''overspendingAlert'', JNum 80),
         (''deviceId'', JStr ''device_1'')]
        [(''lowBalanceThreshold'', JNum 50), (''deviceId'', JStr ''device_2'')])
        ''lowBalanceThreshold'' = JNum 50"
proof -
  have h1: "distinct (map fst [(''lowBalanceThreshold'', JNum 100), (''overspendingAlert'', JNum 80),
                      (''deviceId'', JStr ''device_1'')])" by simp
  have h2: "distinct (map fst [(''lowBalanceThreshold'', JNum 50), (''deviceId'', JStr ''device_2'')])"
    by simp
  from mergeSettings_fields [OF h1 h2, of "''lowBalanceThreshold''"] h1 h2
  show ?thesis by (simp add: getProp_def)
qed

text \<open>
  Claim C4 as stated fails: a field that only the local object has survives the merge,
  so the result is not the cloud record there.
\<close>

theorem mergeSettings_keeps_local_only_field:
  "getProp (mergeSettings
      [(''lowBalanceThreshold'', JNum 100), (''overspendingAlert'', JNum 80),
       (''deviceId'', JStr ''device_1'')]
      [(''lowBalanceThreshold'', JNum 50), (''deviceId'', JStr ''device_2'')])
      ''overspendingAlert''
   \<noteq> getProp [(''lowBalanceThreshold'', JNum 50), (''deviceId'', JStr ''device_2'')]
      ''overspendingAlert''"
  by (simp add: mergeSettings_def spread_def assign_def setProp_def getProp_def)

section \<open>Clearing the data\<close>

text \<open>
  Claim C10. For every application state, \<open>clearAllData\<close>, once the user has confirmed
  it, sets the transactions to the empty array, the budgets to the empty object and the
  settings to the documented defaults, and leaves the categories as they were. (When the
  user declines, nothing changes.)
\<close>

theorem clearAllData_effect:
  "transactions (clearAllData True s) = JArr []
   \<and> budgets (clearAllData True s) = JObj []
   \<and> settings (clearAllData True s)
       = JObj [(''lowBalanceThreshold'', JNum 100), (''overspendingAlert'', JNum 80),
               (''enableNotifications'', JBool False)]
   \<and> categories (clearAllData True s) = categories s
   \<and> clearAllData False s = s"
  by (simp add: clearAllData_def defaultSettings_def)

section \<open>The sort of the redraw\<close>


lemma set_insertByDate: "set (insertByDate newDate a bs) = insert a (set bs)"
  by (induction bs) (auto split: option.splits)

lemma sortNewestFirst_Cons:
  "sortNewestFirst newDate (a # ts) = insertByDate newDate a (sortNewestFirst newDate ts)"
  by (simp add: sortNewestFirst_def)

lemma sortNewestFirst_Nil: "sortNewestFirst newDate [] = []"
  by (simp add: sortNewestFirst_def)


lemma set_sortNewestFirst: "set (sortNewestFirst newDate ts) = set ts"
  by (induction ts) (simp_all add: sortNewestFirst_Nil sortNewestFirst_Cons set_insertByDate)

text \<open>
  With valid dates throughout, the sorted array is in order: the comparator puts no
  element before one that precedes it.
\<close>

lemma dateDifference_valid:
  assumes "newDate (field a ''date'') = Some ta" "newDate (field b ''date'') = Some tb"
  shows "dateDifference newDate a b = Some (tb - ta)"
  using assms by (simp add: dateDifference_def)

lemma insertByDate_sorted:
  assumes valid: "\<forall>t \<in> insert a (set bs). newDate (field t ''date'') \<noteq> None"
    and sorted: "sorted_wrt (\<lambda>x y. the (newDate (field y ''date'')) \<le> the (newDate (field x ''date''))) bs"
  shows "sorted_wrt (\<lambda>x y. the (newDate (field y ''date'')) \<le> the (newDate (field x ''date'')))
           (insertByDate newDate a bs)"
  using assms
proof (induction bs)
  case Nil
  show ?case by simp
next
  case (Cons b bs)
  from Cons.prems(1) obtain ta tb where ta: "newDate (field a ''date'') = Some ta"
    and tb: "newDate (field b ''date'') = Some tb"
    by auto
  note d = dateDifference_valid [OF ta tb]
  show ?case
  proof (cases "tb - ta > 0")
    case True
    from Cons.prems have "sorted_wrt (\<lambda>x y. the (newDate (field y ''date'')) \<le> the (newDate (field x ''date'')))
           (insertByDate newDate a bs)"
      by (intro Cons.IH) auto
    with True Cons.prems(2) ta tb d show ?thesis
      by (auto simp: set_insertByDate)
  next
    case False
    with Cons.prems(2) ta tb d show ?thesis
      by (auto intro: order_trans)
  qed
qed

lemma sortNewestFirst_sorted:
  assumes "\<forall>t \<in> set ts. newDate (field t ''date'') \<noteq> None"
  shows "sorted_wrt (\<lambda>x y. the (newDate (field y ''date'')) \<le> the (newDate (field x ''date'')))
           (sortNewestFirst newDate ts)"
  using assms
proof (induction ts)
  case Nil
  show ?case by (simp add: sortNewestFirst_Nil)
next
  case (Cons a ts)
  then have "sorted_wrt (\<lambda>x y. the (newDate (field y ''date'')) \<le> the (newDate (field x ''date'')))
           (sortNewestFirst newDate ts)"
    by simp
  with Cons.prems show ?case
    unfolding sortNewestFirst_Cons
    by (intro insertByDate_sorted) (simp_all add: set_sortNewestFirst)
qed

text \<open>An array that is in order already is left as it is, also among equal dates.\<close>

lemma sortNewestFirst_in_order:
  assumes "\<forall>t \<in> set ts. newDate (field t ''date'') \<noteq> None"
    and "sorted_wrt (\<lambda>x y. the (newDate (field y ''date'')) \<le> the (newDate (field x ''date''))) ts"
  shows "sortNewestFirst newDate ts = ts"
  using assms
proof (induction ts)
  case Nil
  show ?case by (simp add: sortNewestFirst_Nil)
next
  case (Cons a ts)
  then have IH: "sortNewestFirst newDate ts = ts" by simp
  show ?case
  proof (cases ts)
    case Nil
    then show ?thesis by (simp add: sortNewestFirst_Cons sortNewestFirst_Nil)
  next
    case (Cons b bs)
    from Cons.prems \<open>ts = b # bs\<close> obtain ta tb where ta: "newDate (field a ''date'') = Some ta"
      and tb: "newDate (field b ''date'') = Some tb" and le: "tb \<le> ta"
      by auto
    from dateDifference_valid [OF ta tb] le IH \<open>ts = b # bs\<close> show ?thesis
      by (simp add: sortNewestFirst_Cons)
  qed
qed

lemma updateDashboard_array:
  assumes "transactions s = JArr ts" "\<not> list_ex nullish ts"
  shows "updateDashboard newDate s = (s\<lparr>transactions := JArr (sortNewestFirst newDate ts)\<rparr>, None)"
  using assms by (simp add: updateDashboard_def)

section \<open>Adding a transaction\<close>

text \<open>
  A submission is rejected, and the state left as it was, exactly when the amount field
  parses to \<open>NaN\<close> or to 0 or the category or the date is empty.
\<close>

lemma addTransaction_rejects:
  "storedAmount (transactionAmount form) = None
     \<or> transactionCategory form = [] \<or> transactionDate form = []
   \<Longrightarrow> addTransaction newDate now form s = (s, None)"
  by (auto simp: addTransaction_def split: option.splits)

text \<open>
  Claim C9, on the code. A submission whose amount field reads \<open>-5\<close>, with the category
  Food and the date 2024-01-05, is not rejected: \<open>addTransaction\<close> stores a transaction
  with the amount \<open>-5\<close>. The state holds one earlier transaction, of 2024-01-01; the
  redraw leaves the new one in front of it.
\<close>

theorem addTransaction_stores_negative_amount:
  "addTransaction exampleDate ''1704412800000''
     \<lparr>transactionType = ''expense'', transactionAmount = Finite (- 5),
      transactionCategory = ''Food'', transactionDescription = [],
      transactionDate = ''2024-01-05''\<rparr>
     \<lparr>transactions = JArr [JObj [(''id'', JStr ''t1''), (''type'', JStr ''income''),
                                 (''amount'', JNum 100), (''category'', JStr ''Salary''),
                                 (''description'', JStr []), (''date'', JStr ''2024-01-01'')]],
      budgets = JObj [], settings = defaultSettings, categories = defaultCategories\<rparr>
   = (\<lparr>transactions = JArr [JObj [(''id'', JStr ''1704412800000''), (''type'', JStr ''expense''),
                                  (''amount'', JNum (- 5)), (''category'', JStr ''Food''),
                                  (''description'', JStr []), (''date'', JStr ''2024-01-05'')],
                            JObj [(''id'', JStr ''t1''), (''type'', JStr ''income''),
                                  (''amount'', JNum 100), (''category'', JStr ''Salary''),
                                  (''description'', JStr []), (''date'', JStr ''2024-01-01'')]],
       budgets = JObj [], settings = defaultSettings, categories = defaultCategories\<rparr>,
      None)"
  by (simp add: addTransaction_def updateDashboard_def sortNewestFirst_def dateDifference_def
      field_def getProp_def exampleDate_def checkAlerts_def defaultSettings_def)

section \<open>Merging the downloaded budgets and categories\<close>

lemma mergeCollection_plain_object:
  "truthy cloudValue \<Longrightarrow> mergeCollection newDate (JObj ps) cloudValue keyField = Inl TypeError"
  by (simp add: mergeCollection_def orElse_def mergeArrayDataJS_def)

text \<open>
  Claim C5, on the code. The categories are a plain object with the fields \<open>income\<close> and
  \<open>expense\<close>, and \<open>mergeCloudData\<close> hands that object to \<open>mergeArrayData\<close>, which throws
  on it. With the local names Salary and Food and a download that adds the income name
  Bonus, the merge ends in a \<open>TypeError\<close> and the categories stay as they were; nothing is
  united. This holds for a download that carries the categories alone, and for one
  shaped as \<open>downloadFromCloud\<close> builds it, where the budgets, a plain object too, throw
  first.
\<close>

theorem mergeCloudData_categories_throw:
  "mergeCloudData exampleDate (JObj [])
     \<lparr>transactions = JArr [], budgets = JObj [], settings = defaultSettings,
      categories = JObj [(''income'', JArr [JStr ''Salary'']), (''expense'', JArr [JStr ''Food''])]\<rparr>
     (JObj [(''categories'',
             JObj [(''income'', JArr [JStr ''Salary'', JStr ''Bonus'']),
                   (''expense'', JArr [JStr ''Food''])])])
   = (\<lparr>transactions = JArr [], budgets = JObj [], settings = defaultSettings,
       categories = JObj [(''income'', JArr [JStr ''Salary'']), (''expense'', JArr [JStr ''Food''])]\<rparr>,
      Some TypeError)
   \<and> mergeCloudData exampleDate (JObj [])
     \<lparr>transactions = JArr [], budgets = JObj [], settings = defaultSettings,
      categories = JObj [(''income'', JArr [JStr ''Salary'']), (''expense'', JArr [JStr ''Food''])]\<rparr>
     (JObj [(''transactions'', JArr []), (''budgets'', JObj []), (''settings'', JNull),
            (''categories'',
             JObj [(''income'', JArr [JStr ''Salary'', JStr ''Bonus'']),
                   (''expense'', JArr [JStr ''Food''])])])
   = (\<lparr>transactions = JArr [], budgets = JObj [], settings = defaultSettings,
       categories = JObj [(''income'', JArr [JStr ''Salary'']), (''expense'', JArr [JStr ''Food''])]\<rparr>,
      Some TypeError)"
  by (simp add: mergeCloudData_def mergeCollection_def mergeArrayDataJS_def mergeArrayData_def
      orElse_def field_def getProp_def)

text \<open>
  Claim C1, on the code. The budgets are a plain object, from category to budget, on
  this device and in the download, and \<open>mergeCloudData\<close> hands both to \<open>mergeArrayData\<close>
  with the key \<open>category\<close>; \<open>[...localArray]\<close> throws on the local object. With a local
  budget for Food and a download that holds a budget for Rent, the merge ends in a
  \<open>TypeError\<close> and the budgets stay as they were: the key Rent, present in the download,
  is in no result. This holds for a download that carries the budgets alone, and for
  one shaped as \<open>downloadFromCloud\<close> builds it.
\<close>

theorem mergeCloudData_budgets_throw:
  "mergeCloudData exampleDate (JObj [])
     \<lparr>transactions = JArr [],
      budgets = JObj [(''Food'', JObj [(''amount'', JNum 200), (''period'', JStr ''monthly'')])],
      settings = defaultSettings, categories = defaultCategories\<rparr>
     (JObj [(''budgets'', JObj [(''Rent'', JStr ''500'')])])
   = (\<lparr>transactions = JArr [],
       budgets = JObj [(''Food'', JObj [(''amount'', JNum 200), (''period'', JStr ''monthly'')])],
       settings = defaultSettings, categories = defaultCategories\<rparr>,
      Some TypeError)
   \<and> mergeCloudData exampleDate (JObj [])
     \<lparr>transactions = JArr [],
      budgets = JObj [(''Food'', JObj [(''amount'', JNum 200), (''period'', JStr ''monthly'')])],
      settings = defaultSettings, categories = defaultCategories\<rparr>
     (JObj [(''transactions'', JArr []), (''budgets'', JObj [(''Rent'', JStr ''500'')]),
            (''settings'', JNull), (''categories'', JNull)])
   = (\<lparr>transactions = JArr [],
       budgets = JObj [(''Food'', JObj [(''amount'', JNum 200), (''period'', JStr ''monthly'')])],
       settings = defaultSettings, categories = defaultCategories\<rparr>,
      Some TypeError)"
  by (simp add: mergeCloudData_def mergeCollection_def mergeArrayDataJS_def
      orElse_def field_def getProp_def)

section \<open>A sync cycle whose download gives no data\<close>

lemma downloadFromCloud_failure:
  "\<not> isOnline client \<or> syncInProgress client
     \<or> (\<exists>e. downloadTransactions = Inl e) \<or> (\<exists>e. downloadBudgets = Inl e)
     \<or> (\<exists>e. downloadSettings = Inl e) \<or> (\<exists>e. downloadCategories = Inl e)
   \<Longrightarrow> fst (downloadFromCloud client downloadTransactions downloadBudgets downloadSettings
              downloadCategories) = JNull"
  by (auto simp: downloadFromCloud_def Let_def split: sum.splits)

text \<open>
  Claim C6. \<open>performCloudSync\<close> asks the client for \<open>downloadData\<close>, a method the class
  \<open>SupabaseSync\<close> does not have (its download is \<open>downloadFromCloud\<close>), so the call throws
  inside the \<open>try\<close> block before anything is merged or uploaded. Hence every sync cycle,
  and with it every cycle whose download gives no data, leaves the state exactly as it
  was and returns false: no local record is deleted, and the caller is told of the
  failure.
\<close>

theorem performCloudSync_keeps_state_and_reports_failure:
  "performCloudSync newDate enabled download upload localSettings appSettings now s = (s, False)"
  by (simp add: performCloudSync_def callMethod_def supabaseSyncMethods_def)

section \<open>Loading never throws and falls back to the defaults\<close>

lemma initializeDefaultData_update:
  "initializeDefaultData (s\<lparr>transactions := t\<rparr>) = initializeDefaultData s"
  "initializeDefaultData (s\<lparr>budgets := b\<rparr>) = initializeDefaultData s"
  "initializeDefaultData (s\<lparr>settings := st\<rparr>) = initializeDefaultData s"
  "initializeDefaultData (s\<lparr>categories := c\<rparr>) = initializeDefaultData s"
  by (simp_all add: initializeDefaultData_def)

lemma initializeDefaultData_tryLoad:
  "initializeDefaultData (fst (tryLoad parse storage s)) = initializeDefaultData s"
proof (cases "loadEntry parse storage ''budgetApp_transactions'' (JArr [])")
  case (Inl e)
  then show ?thesis by (simp add: tryLoad_def)
next
  case t: (Inr t)
  show ?thesis
  proof (cases "loadEntry parse storage ''budgetApp_budgets'' (JObj [])")
    case (Inl e)
    with t show ?thesis by (simp add: tryLoad_def initializeDefaultData_update)
  next
    case b: (Inr b)
    show ?thesis
    proof (cases "loadEntry parse storage ''budgetApp_settings'' defaultSettings")
      case (Inl e)
      with t b show ?thesis by (simp add: tryLoad_def initializeDefaultData_update)
    next
      case st: (Inr st)
      show ?thesis
      proof (cases "loadEntry parse storage ''budgetApp_categories'' defaultCategories")
        case (Inl e)
        with t b st show ?thesis by (simp add: tryLoad_def initializeDefaultData_update)
      next
        case c: (Inr c)
        with t b st show ?thesis by (simp add: tryLoad_def Let_def initializeDefaultData_update)
      qed
    qed
  qed
qed

lemma tryLoad_ok_D:
  assumes ok: "snd (tryLoad parse storage s) = None"
  shows "(\<exists>v. loadEntry parse storage ''budgetApp_transactions'' (JArr []) = Inr v)
       \<and> (\<exists>v. loadEntry parse storage ''budgetApp_budgets'' (JObj []) = Inr v)
       \<and> (\<exists>v. loadEntry parse storage ''budgetApp_settings'' defaultSettings = Inr v)
       \<and> (\<exists>v. loadEntry parse storage ''budgetApp_categories'' defaultCategories = Inr v)
       \<and> (\<exists>data. storage ''budgetApp_lastSave'' = Inr data)"
proof (cases "loadEntry parse storage ''budgetApp_transactions'' (JArr [])")
  case (Inl e)
  with ok show ?thesis by (simp add: tryLoad_def)
next
  case t: (Inr t)
  show ?thesis
  proof (cases "loadEntry parse storage ''budgetApp_budgets'' (JObj [])")
    case (Inl e)
    with ok t show ?thesis by (simp add: tryLoad_def)
  next
    case b: (Inr b)
    show ?thesis
    proof (cases "loadEntry parse storage ''budgetApp_settings'' defaultSettings")
      case (Inl e)
      with ok t b show ?thesis by (simp add: tryLoad_def)
    next
      case st: (Inr st)
      show ?thesis
      proof (cases "loadEntry parse storage ''budgetApp_categories'' defaultCategories")
        case (Inl e)
        with ok t b st show ?thesis by (simp add: tryLoad_def)
      next
        case c: (Inr c)
        from ok t b st c have "logLoaded storage
            (s\<lparr>transactions := t, budgets := b, settings := st, categories := c\<rparr>) = None"
          by (simp add: tryLoad_def Let_def)
        then have "\<exists>data. storage ''budgetApp_lastSave'' = Inr data"
          by (cases "storage ''budgetApp_lastSave''") (simp_all add: logLoaded_def split: if_splits)
        with t b st c show ?thesis by simp
      qed
    qed
  qed
qed

lemma loadEntry_read_throws:
  "storage key = Inl e \<Longrightarrow> loadEntry parse storage key dflt = Inl e"
  by (simp add: loadEntry_def)

lemma loadEntry_corrupt:
  "storage key = Inr (Some text) \<Longrightarrow> text \<noteq> [] \<Longrightarrow> parse text = Inl e \<Longrightarrow>
   loadEntry parse storage key dflt = Inl e"
  by (simp add: loadEntry_def)

lemma tryLoad_read_throws:
  assumes "storage key = Inl e"
    and "key = ''budgetApp_transactions'' \<or> key = ''budgetApp_budgets''
       \<or> key = ''budgetApp_settings'' \<or> key = ''budgetApp_categories''
       \<or> key = ''budgetApp_lastSave''"
  shows "snd (tryLoad parse storage s) \<noteq> None"
proof
  assume "snd (tryLoad parse storage s) = None"
  note ok = tryLoad_ok_D [OF this]
  have entry: "loadEntry parse storage key dflt = Inl e" for dflt
    using assms(1) by (rule loadEntry_read_throws)
  from assms(2) show False
  proof (elim disjE)
    assume "key = ''budgetApp_transactions''"
    with entry [of "JArr []"] ok show False by simp
  next
    assume "key = ''budgetApp_budgets''"
    with entry [of "JObj []"] ok show False by simp
  next
    assume "key = ''budgetApp_settings''"
    with entry [of defaultSettings] ok show False by simp
  next
    assume "key = ''budgetApp_categories''"
    with entry [of defaultCategories] ok show False by simp
  next
    assume "key = ''budgetApp_lastSave''"
    with assms(1) ok show False by simp
  qed
qed

lemma tryLoad_corrupt:
  assumes "storage key = Inr (Some content)" "content \<noteq> []" "parse content = Inl e"
    and "key = ''budgetApp_transactions'' \<or> key = ''budgetApp_budgets''
       \<or> key = ''budgetApp_settings'' \<or> key = ''budgetApp_categories''"
  shows "snd (tryLoad parse storage s) \<noteq> None"
proof
  assume "snd (tryLoad parse storage s) = None"
  note ok = tryLoad_ok_D [OF this]
  have entry: "loadEntry parse storage key dflt = Inl e" for dflt
    using assms(1,2,3) by (rule loadEntry_corrupt)
  from assms(4) show False
  proof (elim disjE)
    assume "key = ''budgetApp_transactions''"
    with entry [of "JArr []"] ok show False by simp
  next
    assume "key = ''budgetApp_budgets''"
    with entry [of "JObj []"] ok show False by simp
  next
    assume "key = ''budgetApp_settings''"
    with entry [of defaultSettings] ok show False by simp
  next
    assume "key = ''budgetApp_categories''"
    with entry [of defaultCategories] ok show False by simp
  qed
qed

lemma tryLoad_fails:
  assumes "(\<exists>key e. key \<in> {''budgetApp_transactions'', ''budgetApp_budgets'',
                          ''budgetApp_settings'', ''budgetApp_categories'',
                          ''budgetApp_lastSave''}
                   \<and> storage key = Inl e)
         \<or> (\<exists>key content e. key \<in> {''budgetApp_transactions'', ''budgetApp_budgets'',
                                ''budgetApp_settings'', ''budgetApp_categories''}
                   \<and> storage key = Inr (Some content) \<and> content \<noteq> [] \<and> parse content = Inl e)"
  shows "snd (tryLoad parse storage s) \<noteq> None"
  using assms
proof (elim disjE exE conjE)
  fix key e
  assume k: "key \<in> {''budgetApp_transactions'', ''budgetApp_budgets'',
                          ''budgetApp_settings'', ''budgetApp_categories'',
                          ''budgetApp_lastSave''}"
    and e: "storage key = Inl e"
  from k have "key = ''budgetApp_transactions'' \<or> key = ''budgetApp_budgets''
       \<or> key = ''budgetApp_settings'' \<or> key = ''budgetApp_categories''
       \<or> key = ''budgetApp_lastSave''"
    by (simp only: insert_iff empty_iff simp_thms)
  with e show ?thesis by (rule tryLoad_read_throws)
next
  fix key content e
  assume k: "key \<in> {''budgetApp_transactions'', ''budgetApp_budgets'',
                                ''budgetApp_settings'', ''budgetApp_categories''}"
    and c: "storage key = Inr (Some content)" "content \<noteq> []" "parse content = Inl e"
  from k have "key = ''budgetApp_transactions'' \<or> key = ''budgetApp_budgets''
       \<or> key = ''budgetApp_settings'' \<or> key = ''budgetApp_categories''"
    by (simp only: insert_iff empty_iff simp_thms)
  with c show ?thesis by (rule tryLoad_corrupt)
qed

lemma loadData_never_throws: "snd (loadData parse localStorage sessionStorage s) = None"
  by (simp add: loadData_def split: prod.splits option.splits)

lemma tryFallback_defaults:
  assumes "session ''budgetApp_transactions'' = Inr None
         \<or> session ''budgetApp_transactions'' = Inr (Some [])
         \<or> (\<exists>e. session ''budgetApp_transactions'' = Inl e)
         \<or> (\<exists>text e. session ''budgetApp_transactions'' = Inr (Some text) \<and> parse text = Inl e)"
  shows "tryFallback parse session s = (initializeDefaultData s, None)
       \<or> (\<exists>e. tryFallback parse session s = (s, Some e))"
  using assms
proof (elim disjE exE conjE)
  assume "session ''budgetApp_transactions'' = Inr None"
  then show ?thesis by (simp add: tryFallback_def)
next
  assume "session ''budgetApp_transactions'' = Inr (Some [])"
  then show ?thesis by (simp add: tryFallback_def)
next
  fix e assume "session ''budgetApp_transactions'' = Inl e"
  then show ?thesis by (simp add: tryFallback_def)
next
  fix content e
  assume "session ''budgetApp_transactions'' = Inr (Some content)" "parse content = Inl e"
  then show ?thesis by (cases "content = []") (simp_all add: tryFallback_def)
qed

lemma loadData_failed:
  assumes failed: "snd (tryLoad parse localStorage s) \<noteq> None"
    and session: "sessionStorage ''budgetApp_transactions'' = Inr None
         \<or> sessionStorage ''budgetApp_transactions'' = Inr (Some [])
         \<or> (\<exists>e. sessionStorage ''budgetApp_transactions'' = Inl e)
         \<or> (\<exists>text e. sessionStorage ''budgetApp_transactions'' = Inr (Some text)
                \<and> parse text = Inl e)"
  shows "fst (loadData parse localStorage sessionStorage s) = initializeDefaultData s"
proof -
  obtain s1 r where t: "tryLoad parse localStorage s = (s1, r)" by (cases "tryLoad parse localStorage s")
  with failed obtain e where r: "r = Some e" by auto
  from t have s1: "initializeDefaultData s1 = initializeDefaultData s"
    using initializeDefaultData_tryLoad [of parse localStorage s] by simp
  from tryFallback_defaults [where session = sessionStorage and parse = parse and s = s1, OF session]
  show ?thesis
  proof
    assume "tryFallback parse sessionStorage s1 = (initializeDefaultData s1, None)"
    with t r s1 show ?thesis by (simp add: loadData_def)
  next
    assume "\<exists>e. tryFallback parse sessionStorage s1 = (s1, Some e)"
    with t r s1 show ?thesis by (auto simp: loadData_def)
  qed
qed

lemma loadData_missing:
  assumes "\<forall>key. localStorage key = Inr None"
  shows "fst (loadData parse localStorage sessionStorage s) = initializeDefaultData s"
  using assms
  by (simp add: loadData_def tryLoad_def loadEntry_def logLoaded_def initializeDefaultData_def)

lemma tryLoad_ok_fields:
  assumes ok: "snd (tryLoad parse storage s) = None"
  shows "loadEntry parse storage ''budgetApp_transactions'' (JArr [])
           = Inr (transactions (fst (tryLoad parse storage s)))
       \<and> loadEntry parse storage ''budgetApp_budgets'' (JObj [])
           = Inr (budgets (fst (tryLoad parse storage s)))
       \<and> loadEntry parse storage ''budgetApp_settings'' defaultSettings
           = Inr (settings (fst (tryLoad parse storage s)))
       \<and> loadEntry parse storage ''budgetApp_categories'' defaultCategories
           = Inr (categories (fst (tryLoad parse storage s)))"
proof -
  from tryLoad_ok_D [OF ok] obtain t b st c where
    e: "loadEntry parse storage ''budgetApp_transactions'' (JArr []) = Inr t"
       "loadEntry parse storage ''budgetApp_budgets'' (JObj []) = Inr b"
       "loadEntry parse storage ''budgetApp_settings'' defaultSettings = Inr st"
       "loadEntry parse storage ''budgetApp_categories'' defaultCategories = Inr c"
    by blast
  then have "fst (tryLoad parse storage s)
      = s\<lparr>transactions := t, budgets := b, settings := st, categories := c\<rparr>"
    by (simp add: tryLoad_def Let_def)
  with e show ?thesis by simp
qed

lemma loadEntry_missing:
  "storage key = Inr None \<Longrightarrow> loadEntry parse storage key dflt = Inr dflt"
  by (simp add: loadEntry_def)

lemma loadData_ok:
  "snd (tryLoad parse localStorage s) = None \<Longrightarrow>
   fst (loadData parse localStorage sessionStorage s) = fst (tryLoad parse localStorage s)"
  by (cases "tryLoad parse localStorage s") (simp add: loadData_def)

lemma loadData_missing_key:
  assumes session: "sessionStorage ''budgetApp_transactions'' = Inr None
         \<or> sessionStorage ''budgetApp_transactions'' = Inr (Some [])
         \<or> (\<exists>e. sessionStorage ''budgetApp_transactions'' = Inl e)
         \<or> (\<exists>text e. sessionStorage ''budgetApp_transactions'' = Inr (Some text)
                \<and> parse text = Inl e)"
  shows "(localStorage ''budgetApp_transactions'' = Inr None
          \<longrightarrow> transactions (fst (loadData parse localStorage sessionStorage s)) = JArr [])
       \<and> (localStorage ''budgetApp_budgets'' = Inr None
          \<longrightarrow> budgets (fst (loadData parse localStorage sessionStorage s)) = JObj [])
       \<and> (localStorage ''budgetApp_settings'' = Inr None
          \<longrightarrow> settings (fst (loadData parse localStorage sessionStorage s)) = defaultSettings)
       \<and> (localStorage ''budgetApp_categories'' = Inr None
          \<longrightarrow> categories (fst (loadData parse localStorage sessionStorage s)) = defaultCategories)"
proof (cases "snd (tryLoad parse localStorage s) = None")
  case True
  from tryLoad_ok_fields [OF True] loadData_ok [OF True, of sessionStorage]
  show ?thesis by (auto simp: loadEntry_missing)
next
  case False
  from loadData_failed [where sessionStorage = sessionStorage and parse = parse, OF False session]
  show ?thesis by (simp add: initializeDefaultData_def)
qed

lemma loadDataKey_total: "\<exists>v. loadDataKey parse storage key defaultValue = Inr v"
  by (simp add: loadDataKey_def split: sum.splits)

lemma loadDataKey_default:
  assumes "storage key = Inr None \<or> (\<exists>e. storage key = Inl e)
         \<or> (\<exists>text e. storage key = Inr (Some text) \<and> parse text = Inl e)"
  shows "loadDataKey parse storage key defaultValue = Inr defaultValue"
  using assms
proof (elim disjE exE conjE)
  assume "storage key = Inr None"
  then show ?thesis by (simp add: loadDataKey_def loadDataBody_def)
next
  fix e assume "storage key = Inl e"
  then show ?thesis by (simp add: loadDataKey_def loadDataBody_def)
next
  fix content e
  assume "storage key = Inr (Some content)" "parse content = Inl e"
  then show ?thesis
    by (cases "content = [] \<or> content = ''null'' \<or> content = ''undefined''")
      (simp_all add: loadDataKey_def loadDataBody_def)
qed

text \<open>
  Claim C7, as amended. For every state of \<open>localStorage\<close>, \<open>loadData\<close> returns without
  throwing, and when every key is missing it returns the documented defaults (no
  transactions, no budgets, the default settings and categories). Provided
  \<open>sessionStorage\<close> offers no transactions to fall back on (it has no entry or an empty
  one, cannot be read, or holds text that is not JSON), a collection whose key is missing
  gets its documented default, and when a read of \<open>localStorage\<close> throws or a stored text
  is not JSON, all four collections get their documented defaults. The backup script's
  \<open>loadData(key, defaultValue)\<close> never throws and returns the default value when the key
  is missing, the read throws, or the stored text is not JSON.
\<close>

theorem loadData_defaults:
  "snd (loadData parse localStorage sessionStorage s) = None
   \<and> ((\<forall>key. localStorage key = Inr None)
        \<longrightarrow> fst (loadData parse localStorage sessionStorage s) = initializeDefaultData s)
   \<and> (sessionStorage ''budgetApp_transactions'' = Inr None
          \<or> sessionStorage ''budgetApp_transactions'' = Inr (Some [])
          \<or> (\<exists>e. sessionStorage ''budgetApp_transactions'' = Inl e)
          \<or> (\<exists>text e. sessionStorage ''budgetApp_transactions'' = Inr (Some text)
                \<and> parse text = Inl e)
        \<longrightarrow> (localStorage ''budgetApp_transactions'' = Inr None
              \<longrightarrow> transactions (fst (loadData parse localStorage sessionStorage s)) = JArr [])
          \<and> (localStorage ''budgetApp_budgets'' = Inr None
              \<longrightarrow> budgets (fst (loadData parse localStorage sessionStorage s)) = JObj [])
          \<and> (localStorage ''budgetApp_settings'' = Inr None
              \<longrightarrow> settings (fst (loadData parse localStorage sessionStorage s)) = defaultSettings)
          \<and> (localStorage ''budgetApp_categories'' = Inr None
              \<longrightarrow> categories (fst (loadData parse localStorage sessionStorage s))
                    = defaultCategories)
          \<and> ((\<exists>key e. key \<in> {''budgetApp_transactions'', ''budgetApp_budgets'',
                                ''budgetApp_settings'', ''budgetApp_categories'',
                                ''budgetApp_lastSave''}
                    \<and> localStorage key = Inl e)
                \<or> (\<exists>key text e. key \<in> {''budgetApp_transactions'', ''budgetApp_budgets'',
                                      ''budgetApp_settings'', ''budgetApp_categories''}
                    \<and> localStorage key = Inr (Some text) \<and> text \<noteq> [] \<and> parse text = Inl e)
              \<longrightarrow> fst (loadData parse localStorage sessionStorage s) = initializeDefaultData s))
   \<and> (\<exists>v. loadDataKey parse storage key defaultValue = Inr v)
   \<and> (storage key = Inr None \<or> (\<exists>e. storage key = Inl e)
          \<or> (\<exists>text e. storage key = Inr (Some text) \<and> parse text = Inl e)
        \<longrightarrow> loadDataKey parse storage key defaultValue = Inr defaultValue)"
proof -
  have never: "snd (loadData parse localStorage sessionStorage s) = None"
    by (rule loadData_never_throws)
  have missing: "(\<forall>key. localStorage key = Inr None)
        \<longrightarrow> fst (loadData parse localStorage sessionStorage s) = initializeDefaultData s"
    using loadData_missing [of localStorage parse sessionStorage s] by blast
  have fallback: "(localStorage ''budgetApp_transactions'' = Inr None
              \<longrightarrow> transactions (fst (loadData parse localStorage sessionStorage s)) = JArr [])
          \<and> (localStorage ''budgetApp_budgets'' = Inr None
              \<longrightarrow> budgets (fst (loadData parse localStorage sessionStorage s)) = JObj [])
          \<and> (localStorage ''budgetApp_settings'' = Inr None
              \<longrightarrow> settings (fst (loadData parse localStorage sessionStorage s)) = defaultSettings)
          \<and> (localStorage ''budgetApp_categories'' = Inr None
              \<longrightarrow> categories (fst (loadData parse localStorage sessionStorage s))
                    = defaultCategories)
          \<and> ((\<exists>key e. key \<in> {''budgetApp_transactions'', ''budgetApp_budgets'',
                                ''budgetApp_settings'', ''budgetApp_categories'',
                                ''budgetApp_lastSave''}
                    \<and> localStorage key = Inl e)
                \<or> (\<exists>key text e. key \<in> {''budgetApp_transactions'', ''budgetApp_budgets'',
                                      ''budgetApp_settings'', ''budgetApp_categories''}
                    \<and> localStorage key = Inr (Some text) \<and> text \<noteq> [] \<and> parse text = Inl e)
              \<longrightarrow> fst (loadData parse localStorage sessionStorage s) = initializeDefaultData s)"
    if session: "sessionStorage ''budgetApp_transactions'' = Inr None
          \<or> sessionStorage ''budgetApp_transactions'' = Inr (Some [])
          \<or> (\<exists>e. sessionStorage ''budgetApp_transactions'' = Inl e)
          \<or> (\<exists>text e. sessionStorage ''budgetApp_transactions'' = Inr (Some text)
                \<and> parse text = Inl e)"
  proof -
    note keys = loadData_missing_key [where sessionStorage = sessionStorage and parse = parse
        and localStorage = localStorage and s = s, OF session]
    have failing: "fst (loadData parse localStorage sessionStorage s) = initializeDefaultData s"
      if bad: "(\<exists>key e. key \<in> {''budgetApp_transactions'', ''budgetApp_budgets'',
                                ''budgetApp_settings'', ''budgetApp_categories'',
                                ''budgetApp_lastSave''}
                    \<and> localStorage key = Inl e)
                \<or> (\<exists>key text e. key \<in> {''budgetApp_transactions'', ''budgetApp_budgets'',
                                      ''budgetApp_settings'', ''budgetApp_categories''}
                    \<and> localStorage key = Inr (Some text) \<and> text \<noteq> [] \<and> parse text = Inl e)"
    proof -
      from bad have "snd (tryLoad parse localStorage s) \<noteq> None"
        by (rule tryLoad_fails)
      from loadData_failed [where sessionStorage = sessionStorage and parse = parse,
          OF this session]
      show ?thesis .
    qed
    from keys failing show ?thesis by blast
  qed
  have total: "\<exists>v. loadDataKey parse storage key defaultValue = Inr v"
    by (rule loadDataKey_total)
  have dflt: "storage key = Inr None \<or> (\<exists>e. storage key = Inl e)
          \<or> (\<exists>text e. storage key = Inr (Some text) \<and> parse text = Inl e)
        \<longrightarrow> loadDataKey parse storage key defaultValue = Inr defaultValue"
    using loadDataKey_default [of storage key parse defaultValue] by blast
  from never missing fallback total dflt show ?thesis by blast
qed

theorem loadData_defaults_witness:
  "exampleParse ''not json'' = Inl SyntaxError
   \<and> loadData exampleParse (\<lambda>key. Inl StorageError) (\<lambda>key. Inr None)
       \<lparr>transactions = JUndefined, budgets = JUndefined, settings = JUndefined,
        categories = JUndefined\<rparr>
     = (\<lparr>transactions = JArr [], budgets = JObj [], settings = defaultSettings,
         categories = defaultCategories\<rparr>, None)
   \<and> loadDataKey exampleParse (\<lambda>key. Inr (Some ''not json'')) ''transactions'' (JArr [])
     = Inr (JArr [])"
proof -
  let ?s = "\<lparr>transactions = JUndefined, budgets = JUndefined, settings = JUndefined,
        categories = JUndefined\<rparr>"
  note T = loadData_defaults [of exampleParse "\<lambda>key. Inl StorageError" "\<lambda>key. Inr None" ?s
      "\<lambda>key. Inr (Some ''not json'')" "''transactions''" "JArr []"]
  have p: "exampleParse ''not json'' = Inl SyntaxError"
    by (simp add: exampleParse_def)
  have h1: "\<exists>key e. key \<in> {''budgetApp_transactions'', ''budgetApp_budgets'',
                         ''budgetApp_settings'', ''budgetApp_categories'',
                         ''budgetApp_lastSave''}
                  \<and> (\<lambda>key. Inl StorageError :: error + string option) key = Inl e"
    by (intro exI [of _ "''budgetApp_transactions''"] exI [of _ StorageError]) simp
  have h2: "(\<lambda>key. Inr None :: error + string option) ''budgetApp_transactions'' = Inr None"
    by simp
  from T h1 h2 have a: "fst (loadData exampleParse (\<lambda>key. Inl StorageError) (\<lambda>key. Inr None) ?s)
      = initializeDefaultData ?s"
    by blast
  from T have b: "snd (loadData exampleParse (\<lambda>key. Inl StorageError) (\<lambda>key. Inr None) ?s) = None"
    by blast
  have h3: "\<exists>content e. (\<lambda>key. Inr (Some ''not json'') :: error + string option) ''transactions''
        = Inr (Some content) \<and> exampleParse content = Inl e"
    using p by (intro exI [of _ "''not json''"] exI [of _ SyntaxError]) simp
  from T h3 have c: "loadDataKey exampleParse (\<lambda>key. Inr (Some ''not json'')) ''transactions'' (JArr [])
     = Inr (JArr [])"
    by blast
  from a b have "loadData exampleParse (\<lambda>key. Inl StorageError) (\<lambda>key. Inr None) ?s
      = (initializeDefaultData ?s, None)"
    by (simp add: prod_eq_iff)
  with p c show ?thesis by (simp add: initializeDefaultData_def)
qed

text \<open>
  Claim C7 as stated fails: when \<open>localStorage\<close> throws on read and \<open>sessionStorage\<close>
  holds transactions, the load takes those and assigns no other collection.
\<close>

theorem loadData_takes_session_transactions:
  \<open>loadData exampleParse (\<lambda>key. Inl StorageError)
     (\<lambda>key. if key = ''budgetApp_transactions'' then Inr (Some ''[{"id":"t1"}]'') else Inr None)
     \<lparr>transactions = JUndefined, budgets = JUndefined, settings = JUndefined,
      categories = JUndefined\<rparr>
   = (\<lparr>transactions = JArr [JObj [(''id'', JStr ''t1'')]], budgets = JUndefined,
       settings = JUndefined, categories = JUndefined\<rparr>, None)\<close>
  by (simp add: loadData_def tryLoad_def loadEntry_def tryFallback_def exampleParse_def)

section \<open>Export followed by import\<close>






end
